theory Spec2Isabelle
  imports Main
begin

section \<open>Strings\<close>

text \<open>
  Go strings are byte sequences; they are modelled as \<open>string\<close> (a list of 8-bit
  characters). \<open>strings.ToLower\<close> of the Go standard library lowers an all-ASCII
  string byte by byte (\<open>'A'..'Z'\<close> are moved by \<open>'a' - 'A'\<close>) and hands every
  other string to \<open>Map(unicode.ToLower, s)\<close>. The Unicode tables are not part of
  this repository: the second path is the parameter \<open>uni\<close>.
\<close>

definition isASCII :: "char \<Rightarrow> bool" where
  "isASCII c = (of_char c < (128::nat))"

definition lowerByte :: "char \<Rightarrow> char" where
  "lowerByte c =
     (if (65::nat) \<le> of_char c \<and> of_char c \<le> (90::nat)
      then char_of (of_char c + (32::nat)) else c)"

definition ToLower :: "(string \<Rightarrow> string) \<Rightarrow> string \<Rightarrow> string" where
  "ToLower uni s = (if list_all isASCII s then map lowerByte s else uni s)"

definition HasPrefix :: "string \<Rightarrow> string \<Rightarrow> bool" where
  "HasPrefix s p = (length p \<le> length s \<and> take (length p) s = p)"

section \<open>Subject alternative names\<close>

text \<open>
  \<open>splitSANs\<close> (certificate.go) walks its argument lists in order, keeps a Go
  \<open>map[string]bool\<close> of the names seen so far and appends a name to \<open>unique\<close> when
  the map does not hold it. A missing key reads as \<open>false\<close>.
\<close>

type_synonym IP = "nat list"

definition seen :: "(string \<rightharpoonup> bool) \<Rightarrow> string \<Rightarrow> bool" where
  "seen m san = (case m san of None \<Rightarrow> False | Some b \<Rightarrow> b)"

definition uniqueStep ::
  "(string \<rightharpoonup> bool) \<times> string list \<Rightarrow> string \<Rightarrow> (string \<rightharpoonup> bool) \<times> string list" where
  "uniqueStep st san =
     (case st of (m, unique) \<Rightarrow>
        if \<not> seen m san then (m(san \<mapsto> True), unique @ [san]) else (m, unique))"

definition uniqueSANs :: "string list list \<Rightarrow> string list" where
  "uniqueSANs args = snd (foldl (foldl uniqueStep) (Map.empty, []) args)"

text \<open>
  Modelled from the spec: \<open>x509util.SplitSANs\<close> is a function of this repository
  that is not among the source files. The spec (4.4) says it splits the merged set
  "into DNS-name and IP-address buckets by syntactic form (a literal IP address parses
  as an IP SAN, everything else as a DNS SAN)". The parser of IP literals
  (\<open>net.ParseIP\<close> of the Go standard library) is the parameter \<open>parseIP\<close>.
\<close>

fun SplitSANs :: "(string \<Rightarrow> IP option) \<Rightarrow> string list \<Rightarrow> string list \<times> IP list" where
  "SplitSANs parseIP [] = ([], [])"
| "SplitSANs parseIP (san # sans) =
     (case SplitSANs parseIP sans of (dnsNames, ips) \<Rightarrow>
        (case parseIP san of
           Some ip \<Rightarrow> (dnsNames, ip # ips)
         | None \<Rightarrow> (san # dnsNames, ips)))"

definition splitSANs :: "(string \<Rightarrow> IP option) \<Rightarrow> string list list \<Rightarrow> string list \<times> IP list" where
  "splitSANs parseIP args = SplitSANs parseIP (uniqueSANs args)"

text \<open>
  The spec's words for the merge, "first occurrence wins, later duplicates dropped":
  the head is kept and every later copy of it is removed.
\<close>

fun firstOccurrences :: "string list \<Rightarrow> string list" where
  "firstOccurrences [] = []"
| "firstOccurrences (x # xs) = x # firstOccurrences (filter (\<lambda>y. y \<noteq> x) xs)"

section \<open>Errors\<close>

text \<open>
  Every error the modelled code builds itself has a constructor; the texts of
  \<open>errors.Errorf\<close> are kept as the constructor's arguments. An error returned by a
  collaborator outside these files (the token parser, the authority, the transport,
  the file system) is \<open>External\<close> with its message, and \<open>Wrap\<close> is
  \<open>errors.Wrap\<close>: a message around a cause.
\<close>

datatype error =
    TooFewArguments
  | TooManyArguments
  | IncompatibleFlagWithFlag string string
  | MutuallyExclusiveFlags string string
  | InvalidFlagValue string string
  | RequiredFlag string
  | RequiredUnlessFlag string string
  | RequiredWithFlag string string
  | CommonNameMismatch string string
  | NoEmailClaim
  | EmailMismatch string string
  | TokenSubjectMismatch string string
  | TokenSerialMismatch string string
  | UnrecognizedReason string
  | NoProvisioners string
  | EmptyCertificateChain
  | Wrap string string
  | External string

text \<open>The spec's FlagConflict class (section 7): two flags that exclude or require each other.\<close>

fun isFlagConflict :: "error \<Rightarrow> bool" where
  "isFlagConflict (IncompatibleFlagWithFlag a b) = True"
| "isFlagConflict (MutuallyExclusiveFlags a b) = True"
| "isFlagConflict (RequiredWithFlag a b) = True"
| "isFlagConflict e = False"

definition ext :: "string + 'a \<Rightarrow> error + 'a" where
  "ext r = (case r of Inl msg \<Rightarrow> Inl (External msg) | Inr x \<Rightarrow> Inr x)"

definition wrap :: "string \<Rightarrow> string + 'a \<Rightarrow> error + 'a" where
  "wrap msg r = (case r of Inl cause \<Rightarrow> Inl (Wrap cause msg) | Inr x \<Rightarrow> Inr x)"

section \<open>Revocation reasons\<close>

text \<open>
  \<open>RevocationReasonCodes\<close> and \<open>ReasonStringToCode\<close> as written out in revoke.go
  (lines 22 to 52); \<open>offlineCA.Revoke\<close> calls them as \<open>api.ReasonStringToCode\<close>.
  Modelled from the spec: the values of the \<open>ocsp\<close> constants are not in the source
  files; the spec (section 6) says the names are "mapped to RFC 5280 numeric codes",
  which are 0 to 6 and 8 to 10.
\<close>

definition RevocationReasonCodes :: "(string \<times> int) list" where
  "RevocationReasonCodes =
     [(''unspecified'', 0),
      (''keycompromise'', 1),
      (''cacompromise'', 2),
      (''affiliationchanged'', 3),
      (''superseded'', 4),
      (''cessationofoperation'', 5),
      (''certificatehold'', 6),
      (''removefromcrl'', 8),
      (''privilegewithdrawn'', 9),
      (''aacompromise'', 10)]"

definition ReasonStringToCode :: "(string \<Rightarrow> string) \<Rightarrow> string \<Rightarrow> error + int" where
  "ReasonStringToCode uni reason =
     (if reason = [] then Inr 0
      else case map_of RevocationReasonCodes (ToLower uni reason) of
             None \<Rightarrow> Inl (UnrecognizedReason reason)
           | Some code \<Rightarrow> Inr code)"

text \<open>The ten reason names as the spec (section 6) and the flag's usage text spell them.\<close>

definition reasonNames :: "(string \<times> int) list" where
  "reasonNames =
     [(''Unspecified'', 0),
      (''KeyCompromise'', 1),
      (''CACompromise'', 2),
      (''AffiliationChanged'', 3),
      (''Superseded'', 4),
      (''CessationOfOperation'', 5),
      (''CertificateHold'', 6),
      (''RemoveFromCRL'', 8),
      (''PrivilegeWithdrawn'', 9),
      (''AACompromise'', 10)]"

section \<open>Data\<close>

text \<open>
  \<open>jose.Claims\<close> is the registered claim set of the token library; the code reads its
  \<open>Subject\<close> and \<open>Audience\<close> only. \<open>tokenClaims\<close> (certificate.go) and
  \<open>revokeTokenClaims\<close> (revoke.go) embed it; the latter's \<open>SHA\<close> field is named
  \<open>revokeSHA\<close> here, since a field name is global in a theory.
\<close>

record Claims =
  Subject :: string
  Audience :: "string list"

record tokenClaims = Claims +
  SHA :: string
  SANs :: "string list"
  Email :: string

record revokeTokenClaims = Claims +
  revokeSHA :: string

type_synonym jws = string
type_synonym privateKey = nat
type_synonym certificate = string
type_synonym pemBlock = string
type_synonym time = int
type_synonym Authority = nat

text \<open>
  The fields of \<open>x509.CertificateRequest\<close> that \<open>CreateSignRequest\<close> sets and
  \<open>certificateAction\<close> reads; \<open>CommonName\<close> is \<open>Subject.CommonName\<close>.
\<close>

record CertificateRequest =
  CommonName :: string
  DNSNames :: "string list"
  IPAddresses :: "IP list"
  EmailAddresses :: "string list"

record SignRequest =
  CsrPEM :: CertificateRequest
  OTT :: string
  NotBefore :: time
  NotAfter :: time

record SignResponse =
  ServerPEM :: certificate
  CaPEM :: certificate
  TLSOptions :: string

record RevokeRequest =
  Serial :: string
  Reason :: string
  RevokeOTT :: string

record RevokeResponse =
  Status :: string

record Provisioner =
  Name :: string
  KeyID :: string
  EncryptedKey :: string

record Config =
  ConfigDNSNames :: "string list"
  ConfigRoot :: "string list"
  AuthorityConfig :: "Provisioner list option"

record offlineCA =
  authority :: Authority
  config :: Config
  configFile :: string

datatype ClientOption =
    WithRootSHA256 string
  | WithRootFile string
  | WithTransport string "certificate list"

text \<open>
  The \<open>caClient\<close> interface has two implementations: the \<open>*offlineCA\<close> a flow holds
  (a pointer, \<open>None\<close> when nil) and the \<open>*ca.Client\<close> that \<open>ca.NewClient\<close> builds
  from a URL and options.
\<close>

datatype caClient =
    Embedded "offlineCA option"
  | Remote string "ClientOption list"

record certificateFlow =
  offlineCA :: "offlineCA option"
  offline :: bool

record revokeFlow =
  revokeOfflineCA :: "offlineCA option"
  revokeOffline :: bool

datatype tokenType = revokeType

text \<open>
  The \<open>cli.Context\<close>: the positional arguments and the flags these commands read
  (\<open>ctx.String\<close>, \<open>ctx.Bool\<close>, \<open>ctx.StringSlice\<close>).
\<close>

record Context =
  Args :: "string list"
  flag_token :: string
  flag_offline :: bool
  flag_san :: "string list"
  flag_ca_config :: string
  flag_ca_url :: string
  flag_root :: string
  flag_not_before :: string
  flag_not_after :: string
  flag_reason :: string
  flag_crt :: string
  flag_key :: string

section \<open>Effects\<close>

text \<open>
  What a run does to the world outside is recorded as a list of events, in order:
  building a client or an authority, generating a token, a request to the authority or
  to the remote peer, a file write, a line on the terminal. A function of the model
  returns the events of its run with its outcome.
\<close>

datatype event =
    EvAuthorityNew Config
  | EvNewOfflineMTLSCA string string string
  | EvGenerateToken string "string list"
  | EvNewClient string "ClientOption list"
  | EvAuthorize string
  | EvAuthoritySign CertificateRequest
  | EvClientSign string SignRequest
  | EvAuthorityRevoke string string int
  | EvClientRevoke string RevokeRequest
  | EvWriteFile string string
  | EvSerializeToFile privateKey string
  | EvPrintSelected string string
  | EvPrintf string

type_synonym 'a result = "event list \<times> (error + 'a)"

definition ret :: "'a \<Rightarrow> 'a result" where
  "ret x = ([], Inr x)"

definition fail :: "error \<Rightarrow> 'a result" where
  "fail e = ([], Inl e)"

definition lift :: "error + 'a \<Rightarrow> 'a result" where
  "lift r = ([], r)"

definition emit :: "event \<Rightarrow> unit result" where
  "emit ev = ([ev], Inr ())"

definition check :: "error option \<Rightarrow> unit result" where
  "check r = (case r of Some e \<Rightarrow> ([], Inl e) | None \<Rightarrow> ([], Inr ()))"

definition checkExt :: "string option \<Rightarrow> unit result" where
  "checkExt r = (case r of Some msg \<Rightarrow> ([], Inl (External msg)) | None \<Rightarrow> ([], Inr ()))"

definition bind :: "'a result \<Rightarrow> ('a \<Rightarrow> 'b result) \<Rightarrow> 'b result" where
  "bind m f =
     (case m of
        (l, Inl e) \<Rightarrow> (l, Inl e)
      | (l, Inr x) \<Rightarrow> (case f x of (l', r) \<Rightarrow> (l @ l', r)))"

section \<open>Collaborators\<close>

text \<open>
  Everything these files call and do not define: the Go standard library, the token,
  certificate and authority libraries, and the functions of this repository that live
  in other files (\<open>parseValidity\<close>, \<open>newTokenFlow\<close>, \<open>newOfflineMTLSCA\<close>, the
  \<open>utils\<close>, \<open>pemutil\<close>, \<open>keys\<close> and \<open>pki\<close> packages). Each is a field of the
  environment: a function of its arguments that yields a value or fails with a message,
  which the caller passes on as \<open>External\<close> (or wraps, where the source wraps it).
  \<open>'der\<close> is the encoded certificate request.
  \<open>offlineCA.GenerateToken\<close> (provisioner choice, key decryption, signing) is taken
  as a whole: \<open>offline_GenerateToken\<close>.
\<close>

record 'der env =
  unicode_ToLower :: "string \<Rightarrow> string"
  net_ParseIP :: "string \<Rightarrow> IP option"
  jose_ParseSigned :: "string \<Rightarrow> string + jws"
  jose_tokenClaims :: "jws \<Rightarrow> string + tokenClaims"
  jose_revokeTokenClaims :: "jws \<Rightarrow> string + revokeTokenClaims"
  pki_GetRootCAPath :: string
  os_Stat :: "string \<Rightarrow> bool"
  ca_NewClient :: "string \<Rightarrow> ClientOption list \<Rightarrow> string option"
  client_Sign :: "string \<Rightarrow> ClientOption list \<Rightarrow> SignRequest \<Rightarrow> string + SignResponse"
  client_Revoke :: "string \<Rightarrow> ClientOption list \<Rightarrow> RevokeRequest \<Rightarrow> string + RevokeResponse"
  keys_GenerateDefaultKey :: "string + privateKey"
  x509_CreateCertificateRequest :: "CertificateRequest \<Rightarrow> privateKey \<Rightarrow> string + 'der"
  x509_ParseCertificateRequest :: "'der \<Rightarrow> string + CertificateRequest"
  x509_CheckSignature :: "'der \<Rightarrow> string option"
  parseValidity :: "Context \<Rightarrow> string + (time \<times> time)"
  flags_ParseTimeOrDuration :: "string \<Rightarrow> time option"
  ui_Prompt :: "string + string"
  newTokenFlow :: "Context \<Rightarrow> tokenType option \<Rightarrow> string \<Rightarrow> string list \<Rightarrow> string \<Rightarrow> string \<Rightarrow> time \<Rightarrow> time \<Rightarrow> string + string"
  offline_GenerateToken :: "offlineCA \<Rightarrow> Context \<Rightarrow> tokenType option \<Rightarrow> string \<Rightarrow> string list \<Rightarrow> string + string"
  utils_ReadFile :: "string \<Rightarrow> string + string"
  json_Unmarshal :: "string \<Rightarrow> string + Config"
  authority_New :: "Config \<Rightarrow> string + Authority"
  newOfflineMTLSCA :: "string \<Rightarrow> string \<Rightarrow> string \<Rightarrow> string + offlineCA"
  authority_Authorize :: "Authority \<Rightarrow> string \<Rightarrow> string + string list"
  authority_Sign :: "Authority \<Rightarrow> CertificateRequest \<Rightarrow> time \<Rightarrow> time \<Rightarrow> string list \<Rightarrow> string + (certificate \<times> certificate)"
  authority_GetTLSOptions :: "Authority \<Rightarrow> string"
  authority_Revoke :: "Authority \<Rightarrow> string \<Rightarrow> string \<Rightarrow> int \<Rightarrow> string option"
  pemutil_Serialize :: "certificate \<Rightarrow> string + pemBlock"
  pem_EncodeToMemory :: "pemBlock \<Rightarrow> string"
  utils_WriteFile :: "string \<Rightarrow> string \<Rightarrow> string option"
  pemutil_SerializeToFile :: "privateKey \<Rightarrow> string \<Rightarrow> string option"
  tls_LoadX509KeyPair :: "string \<Rightarrow> string \<Rightarrow> string + certificate list"
  x509util_ReadCertPool :: "string \<Rightarrow> string + string"

section \<open>The embedded client (offlineCA)\<close>

text \<open>\<open>newOfflineCA\<close>: read and decode the configuration, refuse one without provisioners, start the authority.\<close>

definition newOfflineCA :: "'der env \<Rightarrow> string \<Rightarrow> offlineCA result" where
  "newOfflineCA E file =
     bind (lift (ext (utils_ReadFile E file))) (\<lambda>b.
     bind (lift (wrap (''error reading '' @ file) (json_Unmarshal E b))) (\<lambda>cfg.
     if AuthorityConfig cfg = None \<or> length (the (AuthorityConfig cfg)) = 0
     then fail (NoProvisioners file)
     else
       bind (emit (EvAuthorityNew cfg)) (\<lambda>_.
       bind (lift (ext (authority_New E cfg))) (\<lambda>auth.
       ret \<lparr>authority = auth, config = cfg, configFile = file\<rparr>))))"

text \<open>
  A method called through a nil \<open>*offlineCA\<close> dereferences it and panics; the model
  returns \<open>Panic\<close> there. \<open>newCertificateFlow\<close> and \<open>newRevokeFlow\<close> never build a
  flow with \<open>offline\<close> set and a nil pointer.
\<close>

definition Panic :: error where
  "Panic = External ''panic: nil pointer dereference''"

definition offlineCA_Sign :: "'der env \<Rightarrow> offlineCA option \<Rightarrow> SignRequest \<Rightarrow> SignResponse result" where
  "offlineCA_Sign E c req =
     (case c of
        None \<Rightarrow> fail Panic
      | Some ca \<Rightarrow>
          bind (emit (EvAuthorize (OTT req))) (\<lambda>_.
          bind (lift (ext (authority_Authorize E (authority ca) (OTT req)))) (\<lambda>opts.
          bind (emit (EvAuthoritySign (CsrPEM req))) (\<lambda>_.
          bind (lift (ext (authority_Sign E (authority ca) (CsrPEM req) (NotBefore req) (NotAfter req) opts)))
            (\<lambda>(cert, ca').
          ret \<lparr>ServerPEM = cert, CaPEM = ca',
               TLSOptions = authority_GetTLSOptions E (authority ca)\<rparr>)))))"

definition offlineCA_Revoke :: "'der env \<Rightarrow> offlineCA option \<Rightarrow> RevokeRequest \<Rightarrow> RevokeResponse result" where
  "offlineCA_Revoke E c req =
     bind (lift (ReasonStringToCode (unicode_ToLower E) (Reason req))) (\<lambda>reasonCode.
     case c of
       None \<Rightarrow> fail Panic
     | Some ca \<Rightarrow>
         bind (emit (EvAuthorityRevoke (Serial req) ''provisioner-id'' reasonCode)) (\<lambda>_.
         bind (checkExt
                 (authority_Revoke E (authority ca) (Serial req) ''provisioner-id'' reasonCode)) (\<lambda>_.
         ret \<lparr>Status = ''ok''\<rparr>)))"

text \<open>The two implementations of \<open>caClient.Sign\<close> and \<open>caClient.Revoke\<close>.\<close>

definition caClient_Sign :: "'der env \<Rightarrow> caClient \<Rightarrow> SignRequest \<Rightarrow> SignResponse result" where
  "caClient_Sign E client req =
     (case client of
        Embedded c \<Rightarrow> offlineCA_Sign E c req
      | Remote url opts \<Rightarrow>
          bind (emit (EvClientSign url req)) (\<lambda>_. lift (ext (client_Sign E url opts req))))"

definition caClient_Revoke :: "'der env \<Rightarrow> caClient \<Rightarrow> RevokeRequest \<Rightarrow> RevokeResponse result" where
  "caClient_Revoke E client req =
     (case client of
        Embedded c \<Rightarrow> offlineCA_Revoke E c req
      | Remote url opts \<Rightarrow>
          bind (emit (EvClientRevoke url req)) (\<lambda>_. lift (ext (client_Revoke E url opts req))))"

section \<open>Shared steps\<close>

text \<open>
  \<open>errs.NumberOfArguments\<close> is not among the source files; by its name and its two
  call sites it accepts exactly \<open>required\<close> positional arguments. \<open>Get\<close> is
  \<open>ctx.Args().Get(n)\<close>, the empty string past the end.
\<close>

definition NumberOfArguments :: "Context \<Rightarrow> nat \<Rightarrow> error option" where
  "NumberOfArguments ctx required =
     (if length (Args ctx) < required then Some TooFewArguments
      else if required < length (Args ctx) then Some TooManyArguments
      else None)"

definition Get :: "string list \<Rightarrow> nat \<Rightarrow> string" where
  "Get xs n = (if n < length xs then xs ! n else [])"

text \<open>\<open>ui.PrintSelected("CA", caURL)\<close> followed by \<open>ca.NewClient(caURL, options...)\<close>.\<close>

definition newClient :: "'der env \<Rightarrow> string \<Rightarrow> ClientOption list \<Rightarrow> caClient result" where
  "newClient E caURL options =
     bind (emit (EvPrintSelected ''CA'' caURL)) (\<lambda>_.
     bind (emit (EvNewClient caURL options)) (\<lambda>_.
     bind (checkExt (ca_NewClient E caURL options)) (\<lambda>_.
     ret (Remote caURL options))))"

section \<open>The issue flow (certificate.go)\<close>

definition isStepCertificatesToken :: "'der env \<Rightarrow> string \<Rightarrow> bool" where
  "isStepCertificatesToken E token =
     (case jose_ParseSigned E token of
        Inl err \<Rightarrow> False
      | Inr t \<Rightarrow>
          (case jose_tokenClaims E t of
             Inl err \<Rightarrow> False
           | Inr claims \<Rightarrow> length (SHA claims) > 0 \<or> length (SANs claims) > 0))"

definition newCertificateFlow :: "'der env \<Rightarrow> Context \<Rightarrow> certificateFlow result" where
  "newCertificateFlow E ctx =
     (if flag_offline ctx then
        (if flag_ca_config ctx = [] then fail (InvalidFlagValue ''ca-config'' [])
         else
           bind (newOfflineCA E (flag_ca_config ctx)) (\<lambda>offlineClient.
           ret \<lparr>offlineCA = Some offlineClient, offline = True\<rparr>))
      else ret \<lparr>offlineCA = None, offline = False\<rparr>)"

definition certificateFlow_getClient ::
  "'der env \<Rightarrow> certificateFlow \<Rightarrow> Context \<Rightarrow> string \<Rightarrow> string \<Rightarrow> caClient result" where
  "certificateFlow_getClient E f ctx subject token =
     (if offline f then ret (Embedded (offlineCA f))
      else
        bind (lift (wrap ''error parsing flag --token'' (jose_ParseSigned E token))) (\<lambda>tok.
        bind (lift (wrap ''error parsing flag --token'' (jose_tokenClaims E tok))) (\<lambda>claims.
        if ToLower (unicode_ToLower E) (Subject claims) \<noteq> ToLower (unicode_ToLower E) subject
        then fail (TokenSubjectMismatch (Subject claims) subject)
        else
          bind
            (if length (SHA claims) > 0 \<and> length (Audience claims) > 0
                \<and> HasPrefix (ToLower (unicode_ToLower E) (Audience claims ! 0)) ''http''
             then ret (Audience claims ! 0, [WithRootSHA256 (SHA claims)])
             else if length (flag_ca_url ctx) = 0 then fail (RequiredFlag ''ca-url'')
             else if length (flag_root ctx) = 0 then
               (if \<not> os_Stat E (pki_GetRootCAPath E) then fail (RequiredFlag ''root'')
                else ret (flag_ca_url ctx, [WithRootFile (pki_GetRootCAPath E)]))
             else ret (flag_ca_url ctx, [WithRootFile (flag_root ctx)]))
            (\<lambda>(caURL, options). newClient E caURL options))))"

definition certificateFlow_GenerateToken ::
  "'der env \<Rightarrow> certificateFlow \<Rightarrow> Context \<Rightarrow> string \<Rightarrow> string list \<Rightarrow> string result" where
  "certificateFlow_GenerateToken E f ctx subject sans =
     (if offline f then
        (case offlineCA f of
           None \<Rightarrow> fail Panic
         | Some c \<Rightarrow>
             bind (emit (EvGenerateToken subject sans)) (\<lambda>_.
             lift (ext (offline_GenerateToken E c ctx None subject sans))))
      else if length (flag_ca_url ctx) = 0 then fail (RequiredUnlessFlag ''ca-url'' ''token'')
      else
        bind
          (if length (flag_root ctx) = 0 then
             (if \<not> os_Stat E (pki_GetRootCAPath E) then fail (RequiredUnlessFlag ''root'' ''token'')
              else ret (pki_GetRootCAPath E))
           else ret (flag_root ctx))
          (\<lambda>root.
        case flags_ParseTimeOrDuration E (flag_not_before ctx) of
          None \<Rightarrow> fail (InvalidFlagValue ''not-before'' (flag_not_before ctx))
        | Some notBefore \<Rightarrow>
            (case flags_ParseTimeOrDuration E (flag_not_after ctx) of
               None \<Rightarrow> fail (InvalidFlagValue ''not-after'' (flag_not_after ctx))
             | Some notAfter \<Rightarrow>
                 bind (if subject = [] then lift (ext (ui_Prompt E)) else ret subject) (\<lambda>subject.
                 bind (emit (EvGenerateToken subject sans)) (\<lambda>_.
                 lift (ext (newTokenFlow E ctx None subject sans (flag_ca_url ctx) root notBefore notAfter)))))))"

text \<open>
  \<open>CreateSignRequest\<close>: the template's common name is the token's subject, its DNS
  names and IP addresses are \<open>splitSANs(sans, claims.SANs)\<close>, its e-mail addresses are
  the token's e-mail claim when there is one. The request returned is the template
  encoded, parsed again and checked.
\<close>

definition CreateSignRequest ::
  "'der env \<Rightarrow> string \<Rightarrow> string list \<Rightarrow> (SignRequest \<times> privateKey) result" where
  "CreateSignRequest E token sans =
     bind (lift (wrap ''error parsing token'' (jose_ParseSigned E token))) (\<lambda>tok.
     bind (lift (wrap ''error parsing token'' (jose_tokenClaims E tok))) (\<lambda>claims.
     bind (lift (ext (keys_GenerateDefaultKey E))) (\<lambda>pk.
     case splitSANs (net_ParseIP E) [sans, SANs claims] of (dnsNames, ips) \<Rightarrow>
       (let emails = (if Email claims \<noteq> [] then [Email claims] else []);
            template = \<lparr>CommonName = Subject claims, DNSNames = dnsNames,
                        IPAddresses = ips, EmailAddresses = emails\<rparr>
        in
          bind (lift (wrap ''error creating certificate request''
                  (x509_CreateCertificateRequest E template pk))) (\<lambda>csr.
          bind (lift (wrap ''error parsing certificate request''
                  (x509_ParseCertificateRequest E csr))) (\<lambda>cr.
          bind (check (map_option (\<lambda>cause. Wrap cause ''error signing certificate request'')
                  (x509_CheckSignature E csr))) (\<lambda>_.
          ret (\<lparr>CsrPEM = cr, OTT = token, NotBefore = 0, NotAfter = 0\<rparr>, pk))))))))"

definition certificateFlow_Sign ::
  "'der env \<Rightarrow> certificateFlow \<Rightarrow> Context \<Rightarrow> string \<Rightarrow> CertificateRequest \<Rightarrow> string \<Rightarrow> unit result" where
  "certificateFlow_Sign E f ctx token csr crtFile =
     bind (certificateFlow_getClient E f ctx (CommonName csr) token) (\<lambda>client.
     bind (lift (ext (parseValidity E ctx))) (\<lambda>(notBefore, notAfter).
     bind (caClient_Sign E client
             \<lparr>CsrPEM = csr, OTT = token, NotBefore = notBefore, NotAfter = notAfter\<rparr>) (\<lambda>resp.
     bind (lift (ext (pemutil_Serialize E (ServerPEM resp)))) (\<lambda>serverBlock.
     bind (lift (ext (pemutil_Serialize E (CaPEM resp)))) (\<lambda>caBlock.
     bind (emit (EvWriteFile crtFile (pem_EncodeToMemory E serverBlock @ pem_EncodeToMemory E caBlock))) (\<lambda>_.
     checkExt (utils_WriteFile E crtFile
                 (pem_EncodeToMemory E serverBlock @ pem_EncodeToMemory E caBlock))))))))"

text \<open>The subject check of \<open>certificateAction\<close> (lines 151 to 164).\<close>

definition checkSubject :: "'der env \<Rightarrow> bool \<Rightarrow> string \<Rightarrow> CertificateRequest \<Rightarrow> unit result" where
  "checkSubject E isStepToken subject csr =
     (if isStepToken then
        (if ToLower (unicode_ToLower E) subject \<noteq> ToLower (unicode_ToLower E) (CommonName csr)
         then fail (CommonNameMismatch (CommonName csr) subject)
         else ret ())
      else if length (EmailAddresses csr) = 0 then fail NoEmailClaim
      else if EmailAddresses csr ! 0 \<noteq> subject
        then fail (EmailMismatch (EmailAddresses csr ! 0) subject)
      else ret ())"

definition certificateAction :: "'der env \<Rightarrow> Context \<Rightarrow> unit result" where
  "certificateAction E ctx =
     bind (check (NumberOfArguments ctx 3)) (\<lambda>_.
     let subject = Get (Args ctx) 0;
         crtFile = Get (Args ctx) 1;
         keyFile = Get (Args ctx) 2;
         sans = flag_san ctx
     in
       if flag_offline ctx \<and> length (flag_token ctx) \<noteq> 0
       then fail (IncompatibleFlagWithFlag ''offline'' ''token'')
       else
         bind (newCertificateFlow E ctx) (\<lambda>flow.
         bind
           (if length (flag_token ctx) = 0 then
              bind (certificateFlow_GenerateToken E flow ctx subject sans) (\<lambda>token.
              ret (token, isStepCertificatesToken E token))
            else if isStepCertificatesToken E (flag_token ctx) \<and> length sans > 0
              then fail (MutuallyExclusiveFlags ''token'' ''san'')
            else ret (flag_token ctx, isStepCertificatesToken E (flag_token ctx)))
           (\<lambda>(token, isStepToken).
         bind (CreateSignRequest E token sans) (\<lambda>(req, pk).
         bind (checkSubject E isStepToken subject (CsrPEM req)) (\<lambda>_.
         bind (certificateFlow_Sign E flow ctx token (CsrPEM req) crtFile) (\<lambda>_.
         bind (emit (EvSerializeToFile pk keyFile)) (\<lambda>_.
         bind (checkExt (pemutil_SerializeToFile E pk keyFile)) (\<lambda>_.
         bind (emit (EvPrintSelected ''Certificate'' crtFile)) (\<lambda>_.
         emit (EvPrintSelected ''Private Key'' keyFile))))))))))"

section \<open>The revoke flow (revoke.go)\<close>

definition newRevokeFlow :: "'der env \<Rightarrow> Context \<Rightarrow> string \<Rightarrow> string \<Rightarrow> revokeFlow result" where
  "newRevokeFlow E ctx crtFile keyFile =
     (if flag_offline ctx then
        (if flag_ca_config ctx = [] then fail (InvalidFlagValue ''ca-config'' [])
         else
           bind
             (if length crtFile > 0 \<or> length keyFile > 0 then
                bind (emit (EvNewOfflineMTLSCA (flag_ca_config ctx) crtFile keyFile)) (\<lambda>_.
                lift (ext (newOfflineMTLSCA E (flag_ca_config ctx) crtFile keyFile)))
              else newOfflineCA E (flag_ca_config ctx))
             (\<lambda>offlineClient.
           ret \<lparr>revokeOfflineCA = Some offlineClient, revokeOffline = True\<rparr>))
      else ret \<lparr>revokeOfflineCA = None, revokeOffline = False\<rparr>)"

definition revokeFlow_getClient ::
  "'der env \<Rightarrow> revokeFlow \<Rightarrow> Context \<Rightarrow> string \<Rightarrow> string \<Rightarrow> string \<Rightarrow> string \<Rightarrow> caClient result" where
  "revokeFlow_getClient E f ctx serial token crtFile keyFile =
     (if revokeOffline f then ret (Embedded (revokeOfflineCA f))
      else if length token > 0 then
        bind (lift (wrap ''error parsing flag --token'' (jose_ParseSigned E token))) (\<lambda>tok.
        bind (lift (wrap ''error parsing flag --token'' (jose_revokeTokenClaims E tok))) (\<lambda>claims.
        if ToLower (unicode_ToLower E) (Subject claims) \<noteq> ToLower (unicode_ToLower E) serial
        then fail (TokenSerialMismatch (Subject claims) serial)
        else
          bind
            (if length (revokeSHA claims) > 0 \<and> length (Audience claims) > 0
                \<and> HasPrefix (ToLower (unicode_ToLower E) (Audience claims ! 0)) ''http''
             then ret (Audience claims ! 0, [WithRootSHA256 (revokeSHA claims)])
             else if length (flag_ca_url ctx) = 0 then fail (RequiredFlag ''ca-url'')
             else if length (flag_root ctx) = 0 then
               (if \<not> os_Stat E (pki_GetRootCAPath E) then fail (RequiredFlag ''root'')
                else ret (flag_ca_url ctx, [WithRootFile (pki_GetRootCAPath E)]))
             else ret (flag_ca_url ctx, [WithRootFile (flag_root ctx)]))
            (\<lambda>(caURL, options). newClient E caURL options)))
      else
        bind (lift (wrap ''error loading certificates'' (tls_LoadX509KeyPair E crtFile keyFile))) (\<lambda>cert.
        if length cert = 0 then fail EmptyCertificateChain
        else
          bind (lift (ext (x509util_ReadCertPool E (flag_root ctx)))) (\<lambda>rootCAs.
          newClient E (flag_ca_url ctx) [WithTransport rootCAs cert])))"

definition revokeFlow_GenerateToken ::
  "'der env \<Rightarrow> revokeFlow \<Rightarrow> Context \<Rightarrow> string \<Rightarrow> string result" where
  "revokeFlow_GenerateToken E f ctx subject =
     (if revokeOffline f then
        (case revokeOfflineCA f of
           None \<Rightarrow> fail Panic
         | Some c \<Rightarrow>
             bind (emit (EvGenerateToken subject [])) (\<lambda>_.
             lift (ext (offline_GenerateToken E c ctx (Some revokeType) subject []))))
      else if length (flag_ca_url ctx) = 0 then fail (RequiredUnlessFlag ''ca-url'' ''token'')
      else
        bind
          (if length (flag_root ctx) = 0 then
             (if \<not> os_Stat E (pki_GetRootCAPath E) then fail (RequiredUnlessFlag ''root'' ''token'')
              else ret (pki_GetRootCAPath E))
           else ret (flag_root ctx))
          (\<lambda>root.
        case flags_ParseTimeOrDuration E (flag_not_before ctx) of
          None \<Rightarrow> fail (InvalidFlagValue ''not-before'' (flag_not_before ctx))
        | Some notBefore \<Rightarrow>
            (case flags_ParseTimeOrDuration E (flag_not_after ctx) of
               None \<Rightarrow> fail (InvalidFlagValue ''not-after'' (flag_not_after ctx))
             | Some notAfter \<Rightarrow>
                 bind (if subject = [] then lift (ext (ui_Prompt E)) else ret subject) (\<lambda>subject.
                 bind (emit (EvGenerateToken subject [])) (\<lambda>_.
                 lift (ext (newTokenFlow E ctx (Some revokeType) subject [] (flag_ca_url ctx) root
                         notBefore notAfter)))))))"

definition revokeFlow_Revoke ::
  "'der env \<Rightarrow> revokeFlow \<Rightarrow> Context \<Rightarrow> string \<Rightarrow> string \<Rightarrow> string \<Rightarrow> string \<Rightarrow> string \<Rightarrow> unit result" where
  "revokeFlow_Revoke E f ctx serial reason token crtFile keyFile =
     bind (revokeFlow_getClient E f ctx serial token crtFile keyFile) (\<lambda>client.
     bind (caClient_Revoke E client \<lparr>Serial = serial, Reason = reason, RevokeOTT = token\<rparr>) (\<lambda>_.
     ret ()))"

definition revokeCertificateAction :: "'der env \<Rightarrow> Context \<Rightarrow> unit result" where
  "revokeCertificateAction E ctx =
     bind (check (NumberOfArguments ctx 1)) (\<lambda>_.
     let crtFile = flag_crt ctx;
         keyFile = flag_key ctx;
         reason = flag_reason ctx;
         serial = Get (Args ctx) 0
     in
       if flag_offline ctx \<and> length (flag_token ctx) \<noteq> 0
       then fail (IncompatibleFlagWithFlag ''offline'' ''token'')
       else
         bind (newRevokeFlow E ctx crtFile keyFile) (\<lambda>flow.
         bind
           (if length crtFile > 0 \<or> length keyFile > 0 then
              (if length crtFile = 0 then fail (RequiredWithFlag ''key'' ''crt'')
               else if length keyFile = 0 then fail (RequiredWithFlag ''crt'' ''key'')
               else ret (flag_token ctx))
            else if length (flag_token ctx) = 0 then revokeFlow_GenerateToken E flow ctx serial
            else ret (flag_token ctx))
           (\<lambda>token.
         bind (revokeFlow_Revoke E flow ctx serial reason token crtFile keyFile) (\<lambda>_.
         emit (EvPrintf (''Certificate with Serial Number '' @ serial @ '' has been revoked.''))))))"

section \<open>Classes of errors and events used in the statements\<close>


text \<open>The errors of the e-mail branch of the subject check in \<open>certificateAction\<close>.\<close>

fun isEmailCheckError :: "error \<Rightarrow> bool" where
  "isEmailCheckError NoEmailClaim = True"
| "isEmailCheckError (EmailMismatch a b) = True"
| "isEmailCheckError e = False"

fun isCommonNameMismatch :: "error \<Rightarrow> bool" where
  "isCommonNameMismatch (CommonNameMismatch a b) = True"
| "isCommonNameMismatch e = False"

text \<open>The events that write a file: the certificate chain and the private key.\<close>

fun isWrite :: "event \<Rightarrow> bool" where
  "isWrite (EvWriteFile file data) = True"
| "isWrite (EvSerializeToFile pk file) = True"
| "isWrite ev = False"

text \<open>
  The certificate library is faithful when a request that was encoded parses back to
  the template it was made from (on the fields of the model).
\<close>

definition x509_faithful :: "'der env \<Rightarrow> bool" where
  "x509_faithful E =
     (\<forall>template pk der. x509_CreateCertificateRequest E template pk = Inr der
        \<longrightarrow> x509_ParseCertificateRequest E der = Inr template)"

text \<open>
  \<open>signedChain E ctx data\<close>: \<open>data\<close> is the encoded certificate chain of a response
  that a client's \<open>Sign\<close> returned, for a client that \<open>getClient\<close> built and a
  validity that parsed. \<open>writeOrder E ctx l r\<close> is the shape of a run with events
  \<open>l\<close> and outcome \<open>r\<close>: a failure without a write; or the write of such a chain to
  the certificate file as the only write, when that write failed; or that write
  followed by the write of the key file and no other, when it succeeded.
\<close>

definition signedChain :: "'der env \<Rightarrow> Context \<Rightarrow> string \<Rightarrow> bool" where
  "signedChain E ctx data =
     (\<exists>flow token csr l1 client notBefore notAfter l2 resp serverBlock caBlock.
         certificateFlow_getClient E flow ctx (CommonName csr) token = (l1, Inr client)
         \<and> parseValidity E ctx = Inr (notBefore, notAfter)
         \<and> caClient_Sign E client
               \<lparr>CsrPEM = csr, OTT = token, NotBefore = notBefore, NotAfter = notAfter\<rparr> = (l2, Inr resp)
         \<and> pemutil_Serialize E (ServerPEM resp) = Inr serverBlock
         \<and> pemutil_Serialize E (CaPEM resp) = Inr caBlock
         \<and> data = pem_EncodeToMemory E serverBlock @ pem_EncodeToMemory E caBlock)"

definition writeOrder :: "'der env \<Rightarrow> Context \<Rightarrow> event list \<Rightarrow> error + unit \<Rightarrow> bool" where
  "writeOrder E ctx l r =
     ((\<exists>e. r = Inl e \<and> filter isWrite l = [])
      \<or> (\<exists>data. signedChain E ctx data
            \<and> ((\<exists>msg. utils_WriteFile E (Get (Args ctx) 1) data = Some msg
                   \<and> r = Inl (External msg)
                   \<and> filter isWrite l = [EvWriteFile (Get (Args ctx) 1) data])
               \<or> (utils_WriteFile E (Get (Args ctx) 1) data = None
                   \<and> (\<exists>pk. filter isWrite l =
                         [EvWriteFile (Get (Args ctx) 1) data,
                          EvSerializeToFile pk (Get (Args ctx) 2)])))))"

section \<open>A sample environment\<close>

text \<open>
  Concrete collaborators on which the functions can be run. A token is its own payload;
  four tokens are known: \<open>''native''\<close>, issued by the authority for
  \<open>host.example.com\<close> with a root fingerprint and the audience
  \<open>https://ca.example.com/sign\<close>; \<open>''oidc''\<close>, an identity token with an e-mail
  claim and none of the authority's claims; \<open>''plain''\<close>, which declares two SANs and
  no fingerprint; and \<open>''revoke''\<close>, bound to the serial number \<open>ABCDEF\<close>.
  A certificate request is encoded as itself, so parsing returns what was encoded.
  The default root file does not exist; every other call succeeds.
\<close>

definition nativeClaims :: tokenClaims where
  "nativeClaims =
     \<lparr>Subject = ''host.example.com'', Audience = [''https://ca.example.com/sign''],
      SHA = ''c0ffee'', SANs = [], Email = []\<rparr>"

definition oidcClaims :: tokenClaims where
  "oidcClaims =
     \<lparr>Subject = ''1234567890'', Audience = [''step-cli''],
      SHA = [], SANs = [], Email = ''joe@example.com''\<rparr>"

definition plainClaims :: tokenClaims where
  "plainClaims =
     \<lparr>Subject = ''Host.Example.com'', Audience = [''step-ca''],
      SHA = [], SANs = [''host.example.com'', ''10.0.0.1''], Email = []\<rparr>"

definition revokeClaims :: revokeTokenClaims where
  "revokeClaims =
     \<lparr>Subject = ''ABCDEF'', Audience = [''HTTPS://ca.example.com/revoke''],
      revokeSHA = ''c0ffee''\<rparr>"

definition sampleEnv :: "CertificateRequest env" where
  "sampleEnv =
     \<lparr>unicode_ToLower = (\<lambda>s. s),
      net_ParseIP = (\<lambda>s. if s = ''10.0.0.1'' then Some [10, 0, 0, 1] else None),
      jose_ParseSigned =
        (\<lambda>s. if s = ''native'' \<or> s = ''oidc'' \<or> s = ''plain'' \<or> s = ''revoke''
              then Inr s else Inl ''compact JWS format must have three parts''),
      jose_tokenClaims =
        (\<lambda>t. if t = ''native'' then Inr nativeClaims
              else if t = ''oidc'' then Inr oidcClaims
              else if t = ''plain'' then Inr plainClaims
              else Inl ''invalid payload''),
      jose_revokeTokenClaims =
        (\<lambda>t. if t = ''revoke'' then Inr revokeClaims else Inl ''invalid payload''),
      pki_GetRootCAPath = ''/home/step/certs/root_ca.crt'',
      os_Stat = (\<lambda>path. False),
      ca_NewClient = (\<lambda>url opts. None),
      client_Sign = (\<lambda>url opts req. Inr \<lparr>ServerPEM = ''leaf'', CaPEM = ''issuer'', TLSOptions = []\<rparr>),
      client_Revoke = (\<lambda>url opts req. Inr \<lparr>Status = ''ok''\<rparr>),
      keys_GenerateDefaultKey = Inr 7,
      x509_CreateCertificateRequest = (\<lambda>template pk. Inr template),
      x509_ParseCertificateRequest = (\<lambda>der. Inr der),
      x509_CheckSignature = (\<lambda>der. None),
      parseValidity = (\<lambda>ctx. Inr (0, 0)),
      flags_ParseTimeOrDuration = (\<lambda>s. Some 0),
      ui_Prompt = Inr ''prompted.example.com'',
      newTokenFlow = (\<lambda>ctx typ subject sans caURL root notBefore notAfter. Inr ''native''),
      offline_GenerateToken = (\<lambda>c ctx typ subject sans. Inr ''native''),
      utils_ReadFile = (\<lambda>file. Inr ''{}''),
      json_Unmarshal =
        (\<lambda>b. Inr \<lparr>ConfigDNSNames = [''ca.example.com''], ConfigRoot = [''root_ca.crt''],
                   AuthorityConfig =
                     Some [\<lparr>Name = ''acme'', KeyID = ''K1'', EncryptedKey = ''secret''\<rparr>]\<rparr>),
      authority_New = (\<lambda>cfg. Inr 1),
      newOfflineMTLSCA =
        (\<lambda>file crt key. Inr \<lparr>authority = 1,
            config = \<lparr>ConfigDNSNames = [], ConfigRoot = [], AuthorityConfig = None\<rparr>,
            configFile = file\<rparr>),
      authority_Authorize = (\<lambda>auth ott. Inr []),
      authority_Sign = (\<lambda>auth csr notBefore notAfter opts. Inr (''leaf'', ''issuer'')),
      authority_GetTLSOptions = (\<lambda>auth. []),
      authority_Revoke = (\<lambda>auth serial provisioner code. None),
      pemutil_Serialize = (\<lambda>cert. Inr cert),
      pem_EncodeToMemory = (\<lambda>block. block),
      utils_WriteFile = (\<lambda>file data. None),
      pemutil_SerializeToFile = (\<lambda>pk file. None),
      tls_LoadX509KeyPair = (\<lambda>crt key. Inr [''leaf'']),
      x509util_ReadCertPool = (\<lambda>file. Inr ''pool'')\<rparr>"

definition sampleCtx :: Context where
  "sampleCtx =
     \<lparr>Args = [], flag_token = [], flag_offline = False, flag_san = [],
      flag_ca_config = [], flag_ca_url = [], flag_root = [],
      flag_not_before = [], flag_not_after = [], flag_reason = [],
      flag_crt = [], flag_key = []\<rparr>"

section \<open>The result monad\<close>

lemma bind_lift_Inl: "bind (lift (Inl e)) f = ([], Inl e)"
  by (simp add: bind_def lift_def)

lemma bind_lift_Inr: "bind (lift (Inr x)) f = f x"
  by (simp add: bind_def lift_def split: prod.splits)

section \<open>The SAN merge and split\<close>

lemma foldl_foldl_concat: "foldl (foldl f) a xss = foldl f a (concat xss)"
  by (induction xss arbitrary: a) simp_all

lemma filter_firstOccurrences:
  "filter P (firstOccurrences xs) = firstOccurrences (filter P xs)"
proof (induction xs rule: firstOccurrences.induct)
  case 1
  then show ?case by simp
next
  case (2 x xs)
  have IH: "filter P (firstOccurrences (filter (\<lambda>y. y \<noteq> x) xs))
              = firstOccurrences (filter P (filter (\<lambda>y. y \<noteq> x) xs))"
    using 2 by simp
  show ?case
  proof (cases "P x")
    case True
    have "filter P (filter (\<lambda>y. y \<noteq> x) xs) = filter (\<lambda>y. y \<noteq> x) (filter P xs)"
      by (induction xs) auto
    with True IH show ?thesis by simp
  next
    case False
    have "filter P (filter (\<lambda>y. y \<noteq> x) xs) = filter P xs"
      using False by (induction xs) auto
    with False IH show ?thesis by simp
  qed
qed

lemma set_firstOccurrences: "set (firstOccurrences xs) = set xs"
  by (induction xs rule: firstOccurrences.induct) auto

lemma distinct_firstOccurrences: "distinct (firstOccurrences xs)"
  by (induction xs rule: firstOccurrences.induct) (auto simp: set_firstOccurrences)

lemma firstOccurrences_distinct: "distinct xs \<Longrightarrow> firstOccurrences xs = xs"
proof (induction xs)
  case Nil
  then show ?case by simp
next
  case (Cons a xs)
  then have "filter (\<lambda>y. y \<noteq> a) xs = xs" by (auto simp: filter_id_conv)
  with Cons show ?case by simp
qed

lemma filter_filter_neq:
  "filter (\<lambda>y. y \<notin> set (filter (\<lambda>y. y \<noteq> x) xs)) (filter (\<lambda>y. y \<noteq> x) zs)
     = filter (\<lambda>y. y \<notin> set (x # xs)) zs"
  by (induction zs) auto

lemma firstOccurrences_append:
  "firstOccurrences (xs @ ys) = firstOccurrences xs @ filter (\<lambda>y. y \<notin> set xs) (firstOccurrences ys)"
proof (induction xs arbitrary: ys rule: firstOccurrences.induct)
  case 1
  then show ?case by simp
next
  case (2 x xs)
  let ?xs' = "filter (\<lambda>y. y \<noteq> x) xs" and ?ys' = "filter (\<lambda>y. y \<noteq> x) ys"
  have "firstOccurrences ((x # xs) @ ys) = x # firstOccurrences (?xs' @ ?ys')" by simp
  also have "firstOccurrences (?xs' @ ?ys')
      = firstOccurrences ?xs' @ filter (\<lambda>y. y \<notin> set ?xs') (firstOccurrences ?ys')"
    by (rule 2)
  also have "filter (\<lambda>y. y \<notin> set ?xs') (firstOccurrences ?ys')
      = filter (\<lambda>y. y \<notin> set ?xs') (filter (\<lambda>y. y \<noteq> x) (firstOccurrences ys))"
    by (simp only: filter_firstOccurrences)
  also have "\<dots> = filter (\<lambda>y. y \<notin> set (x # xs)) (firstOccurrences ys)"
    by (rule filter_filter_neq)
  finally show ?case by simp
qed

lemma uniqueStep_foldl:
  "\<forall>s. seen m s = (s \<in> set u) \<Longrightarrow>
   \<exists>m'. foldl uniqueStep (m, u) xs = (m', u @ firstOccurrences (filter (\<lambda>y. y \<notin> set u) xs))
       \<and> (\<forall>s. seen m' s = (s \<in> set u \<union> set xs))"
proof (induction xs arbitrary: m u)
  case Nil
  then show ?case by simp
next
  case (Cons x xs)
  show ?case
  proof (cases "x \<in> set u")
    case True
    then have "uniqueStep (m, u) x = (m, u)" using Cons.prems by (simp add: uniqueStep_def)
    then show ?thesis using Cons.IH[OF Cons.prems] True by auto
  next
    case False
    then have st: "uniqueStep (m, u) x = (m(x \<mapsto> True), u @ [x])"
      using Cons.prems by (simp add: uniqueStep_def)
    have inv: "\<forall>s. seen (m(x \<mapsto> True)) s = (s \<in> set (u @ [x]))"
      using Cons.prems by (auto simp: seen_def)
    have f: "filter (\<lambda>y. y \<notin> set (u @ [x])) xs = filter (\<lambda>y. y \<noteq> x) (filter (\<lambda>y. y \<notin> set u) xs)"
      by (auto intro: filter_cong)
    from Cons.IH[OF inv] obtain m' where
      "foldl uniqueStep (m(x \<mapsto> True), u @ [x]) xs =
         (m', (u @ [x]) @ firstOccurrences (filter (\<lambda>y. y \<notin> set (u @ [x])) xs))"
      "\<forall>s. seen m' s = (s \<in> set (u @ [x]) \<union> set xs)" by blast
    then show ?thesis using False st f by auto
  qed
qed

lemma uniqueSANs_firstOccurrences: "uniqueSANs args = firstOccurrences (concat args)"
proof -
  have "\<forall>s. seen Map.empty s = (s \<in> set ([]::string list))" by (simp add: seen_def)
  from uniqueStep_foldl[OF this, of "concat args"] show ?thesis
    by (auto simp: uniqueSANs_def foldl_foldl_concat)
qed

lemma SplitSANs_filter:
  "SplitSANs parseIP sans = (filter (\<lambda>s. parseIP s = None) sans, List.map_filter parseIP sans)"
  by (induction sans) (auto simp: List.map_filter_simps split: option.splits)

lemma length_split:
  "length (filter (\<lambda>s. f s = None) xs) + length (List.map_filter f xs) = length xs"
  by (induction xs) (auto simp: List.map_filter_simps split: option.splits)

lemma firstOccurrences_index:
  "firstOccurrences xs = map (\<lambda>i. xs ! i) (filter (\<lambda>i. xs ! i \<notin> set (take i xs)) [0..<length xs])"
proof (induction xs rule: rev_induct)
  case Nil
  then show ?case by simp
next
  case (snoc x xs)
  define P where "P = (\<lambda>i. (xs @ [x]) ! i \<notin> set (take i (xs @ [x])))"
  define Q where "Q = (\<lambda>i. xs ! i \<notin> set (take i xs))"
  define f where "f = (\<lambda>i. (xs @ [x]) ! i)"
  have PQ: "\<And>i. i < length xs \<Longrightarrow> P i = Q i" by (simp add: P_def Q_def nth_append)
  have Pn: "P (length xs) = (x \<notin> set xs)" by (simp add: P_def)
  have fn: "f (length xs) = x" by (simp add: f_def)
  have a: "filter P [0..<length xs] = filter Q [0..<length xs]"
    by (rule filter_cong[OF refl]) (simp add: PQ)
  have b: "map f (filter Q [0..<length xs]) = map (\<lambda>i. xs ! i) (filter Q [0..<length xs])"
    by (rule map_cong[OF refl]) (simp add: f_def nth_append)
  have "firstOccurrences (xs @ [x]) = firstOccurrences xs @ (if x \<in> set xs then [] else [x])"
    by (simp add: firstOccurrences_append)
  also have "firstOccurrences xs = map (\<lambda>i. xs ! i) (filter Q [0..<length xs])"
    using snoc by (simp only: Q_def)
  finally have "firstOccurrences (xs @ [x]) = map f (filter P [0..<length (xs @ [x])])"
    by (simp add: a b Pn fn)
  then show ?case by (simp only: P_def f_def)
qed


text \<open>
  Claim C3. For all SAN lists \<open>A\<close> (from the caller) and \<open>B\<close> (from the token), the
  merge of \<open>splitSANs\<close> keeps exactly the first occurrence of every element of
  \<open>A @ B\<close>, in order (the elements of \<open>A\<close> before the new ones of \<open>B\<close>), has no
  duplicates and the elements of both lists, and is idempotent: merging the result
  again, with itself or with \<open>B\<close>, returns it. The split puts every merged element in
  exactly one bucket: the DNS names are the elements that do not parse as an IP address,
  the IP addresses are the parses of the others, and the sizes add up.
\<close>

theorem splitSANs_merge_partition:
  "uniqueSANs [A, B] = firstOccurrences (A @ B)
   \<and> uniqueSANs [A, B] = firstOccurrences A @ filter (\<lambda>b. b \<notin> set A) (firstOccurrences B)
   \<and> uniqueSANs [A, B] =
       map (\<lambda>i. (A @ B) ! i) (filter (\<lambda>i. (A @ B) ! i \<notin> set (take i (A @ B))) [0..<length (A @ B)])
   \<and> distinct (uniqueSANs [A, B])
   \<and> set (uniqueSANs [A, B]) = set A \<union> set B
   \<and> uniqueSANs [uniqueSANs [A, B]] = uniqueSANs [A, B]
   \<and> uniqueSANs [uniqueSANs [A, B], uniqueSANs [A, B]] = uniqueSANs [A, B]
   \<and> uniqueSANs [uniqueSANs [A, B], B] = uniqueSANs [A, B]
   \<and> splitSANs parseIP [A, B] =
       (filter (\<lambda>s. parseIP s = None) (uniqueSANs [A, B]), List.map_filter parseIP (uniqueSANs [A, B]))
   \<and> length (fst (splitSANs parseIP [A, B])) + length (snd (splitSANs parseIP [A, B]))
       = length (uniqueSANs [A, B])
   \<and> (\<forall>s \<in> set (uniqueSANs [A, B]).
        (s \<in> set (fst (splitSANs parseIP [A, B]))) = (parseIP s = None)
        \<and> (\<forall>ip. parseIP s = Some ip \<longrightarrow> ip \<in> set (snd (splitSANs parseIP [A, B]))))"
proof -
  let ?U = "uniqueSANs [A, B]"
  have U: "?U = firstOccurrences (A @ B)"
    by (simp add: uniqueSANs_firstOccurrences)
  have app: "?U = firstOccurrences A @ filter (\<lambda>b. b \<notin> set A) (firstOccurrences B)"
    by (simp only: U firstOccurrences_append)
  have idx: "?U = map (\<lambda>i. (A @ B) ! i)
      (filter (\<lambda>i. (A @ B) ! i \<notin> set (take i (A @ B))) [0..<length (A @ B)])"
    by (simp only: U) (rule firstOccurrences_index)
  have d: "distinct ?U" by (simp only: U distinct_firstOccurrences)
  have st: "set ?U = set A \<union> set B" by (simp add: U set_firstOccurrences)
  have i1: "uniqueSANs [?U] = ?U"
    using d by (simp add: uniqueSANs_firstOccurrences[of "[?U]"] firstOccurrences_distinct)
  have fe: "filter (\<lambda>y. y \<notin> set ?U) (firstOccurrences ?U) = []"
    by (simp add: set_firstOccurrences)
  have i2: "uniqueSANs [?U, ?U] = ?U"
    using d by (simp add: uniqueSANs_firstOccurrences[of "[?U, ?U]"] firstOccurrences_append
        firstOccurrences_distinct fe)
  have fb: "filter (\<lambda>y. y \<notin> set ?U) (firstOccurrences B) = []"
    by (simp add: st set_firstOccurrences)
  have i3: "uniqueSANs [?U, B] = ?U"
    using d by (simp add: uniqueSANs_firstOccurrences[of "[?U, B]"] firstOccurrences_append
        firstOccurrences_distinct fb)
  have sp: "splitSANs parseIP [A, B] =
      (filter (\<lambda>s. parseIP s = None) ?U, List.map_filter parseIP ?U)"
    by (simp only: splitSANs_def SplitSANs_filter)
  have len: "length (fst (splitSANs parseIP [A, B])) + length (snd (splitSANs parseIP [A, B]))
      = length ?U"
    by (simp only: sp fst_conv snd_conv length_split)
  have part: "\<forall>s \<in> set ?U.
        (s \<in> set (fst (splitSANs parseIP [A, B]))) = (parseIP s = None)
        \<and> (\<forall>ip. parseIP s = Some ip \<longrightarrow> ip \<in> set (snd (splitSANs parseIP [A, B])))"
    by (simp only: sp fst_conv snd_conv) (force simp: List.map_filter_def)
  from U app idx d st i1 i2 i3 sp len part show ?thesis by blast
qed

theorem splitSANs_merge_partition_witness:
  "uniqueSANs [[''a'', ''10.0.0.1'', ''a''], [''b'', ''a'']] = [''a'', ''10.0.0.1'', ''b'']
   \<and> splitSANs (net_ParseIP sampleEnv) [[''a'', ''10.0.0.1'', ''a''], [''b'', ''a'']]
       = ([''a'', ''b''], [[10, 0, 0, 1]])"
  using splitSANs_merge_partition [of "[''a'', ''10.0.0.1'', ''a'']" "[''b'', ''a'']" "net_ParseIP sampleEnv"]
  by (simp add: sampleEnv_def List.map_filter_def)

section \<open>The reason table\<close>

lemma ToLower_reasonNames:
  "map (\<lambda>(n, c). (ToLower uni n, c)) reasonNames = RevocationReasonCodes"
  by (simp add: reasonNames_def RevocationReasonCodes_def ToLower_def isASCII_def
      lowerByte_def char_of_def bit_iff_odd)

lemma distinct_RevocationReasonCodes: "distinct (map fst RevocationReasonCodes)"
  by (simp add: RevocationReasonCodes_def)

lemma reasonNames_lookup:
  "(map_of RevocationReasonCodes k = Some c) = (\<exists>n. (n, c) \<in> set reasonNames \<and> k = ToLower uni n)"
proof -
  have "(map_of RevocationReasonCodes k = Some c) = ((k, c) \<in> set RevocationReasonCodes)"
    using distinct_RevocationReasonCodes by (rule map_of_eq_Some_iff)
  also have "\<dots> = ((k, c) \<in> set (map (\<lambda>(n, c). (ToLower uni n, c)) reasonNames))"
    by (simp only: ToLower_reasonNames)
  also have "\<dots> = (\<exists>n. (n, c) \<in> set reasonNames \<and> k = ToLower uni n)"
    by (auto simp: image_iff split: prod.splits)
  finally show ?thesis .
qed

text \<open>
  Claim C7. The conversion of a reason string is case-insensitive and defined on
  exactly the ten names: the empty string gives code 0; a non-empty string that lowers
  to the same string as one of the ten names gives that name's RFC 5280 code; no other
  non-empty string is accepted, it fails with the unrecognized-reason error; and when
  the conversion fails, \<open>offlineCA.Revoke\<close> returns that error with no call to the
  authority, whereas on success the authority's \<open>Revoke\<close> is the one call made.
\<close>

theorem ReasonStringToCode_total_on_names:
  "ReasonStringToCode uni [] = Inr 0
   \<and> (\<forall>(n, c) \<in> set reasonNames. \<forall>r. r \<noteq> [] \<and> ToLower uni r = ToLower uni n
         \<longrightarrow> ReasonStringToCode uni r = Inr c)
   \<and> (\<forall>r. r \<noteq> [] \<and> (\<forall>(n, c) \<in> set reasonNames. ToLower uni r \<noteq> ToLower uni n)
         \<longrightarrow> ReasonStringToCode uni r = Inl (UnrecognizedReason r))
   \<and> (\<forall>r c. r \<noteq> [] \<and> ReasonStringToCode uni r = Inr c
         \<longrightarrow> (\<exists>n. (n, c) \<in> set reasonNames \<and> ToLower uni r = ToLower uni n))
   \<and> (\<forall>e. ReasonStringToCode (unicode_ToLower E) (Reason req) = Inl e
         \<longrightarrow> offlineCA_Revoke E c req = ([], Inl e))
   \<and> (\<forall>code. ReasonStringToCode (unicode_ToLower E) (Reason req) = Inr code
         \<longrightarrow> fst (offlineCA_Revoke E (Some ca) req)
               = [EvAuthorityRevoke (Serial req) ''provisioner-id'' code])"
proof -
  have a: "ReasonStringToCode uni [] = Inr 0" by (simp add: ReasonStringToCode_def)
  have b: "\<forall>(n, c) \<in> set reasonNames. \<forall>r. r \<noteq> [] \<and> ToLower uni r = ToLower uni n
         \<longrightarrow> ReasonStringToCode uni r = Inr c"
  proof (clarify)
    fix n c r assume nc: "(n, c) \<in> set reasonNames" and r: "r \<noteq> []"
      and eq: "ToLower uni r = ToLower uni n"
    from nc have "map_of RevocationReasonCodes (ToLower uni n) = Some c"
      by (auto simp: reasonNames_lookup[of _ _ uni])
    with r eq show "ReasonStringToCode uni r = Inr c" by (simp add: ReasonStringToCode_def)
  qed
  have c: "\<forall>r. r \<noteq> [] \<and> (\<forall>(n, c) \<in> set reasonNames. ToLower uni r \<noteq> ToLower uni n)
         \<longrightarrow> ReasonStringToCode uni r = Inl (UnrecognizedReason r)"
  proof (clarify)
    fix r assume r: "r \<noteq> []"
      and no: "\<forall>(n, c) \<in> set reasonNames. ToLower uni r \<noteq> ToLower uni n"
    have "map_of RevocationReasonCodes (ToLower uni r) = None"
    proof (cases "map_of RevocationReasonCodes (ToLower uni r)")
      case None then show ?thesis .
    next
      case (Some c)
      then obtain n where "(n, c) \<in> set reasonNames" "ToLower uni r = ToLower uni n"
        by (auto simp: reasonNames_lookup[of _ _ uni])
      with no show ?thesis by auto
    qed
    with r show "ReasonStringToCode uni r = Inl (UnrecognizedReason r)"
      by (simp add: ReasonStringToCode_def)
  qed
  have d: "\<forall>r c. r \<noteq> [] \<and> ReasonStringToCode uni r = Inr c
         \<longrightarrow> (\<exists>n. (n, c) \<in> set reasonNames \<and> ToLower uni r = ToLower uni n)"
    by (auto simp: ReasonStringToCode_def reasonNames_lookup[of _ _ uni] split: option.splits)
  have e: "\<forall>e. ReasonStringToCode (unicode_ToLower E) (Reason req) = Inl e
         \<longrightarrow> offlineCA_Revoke E c req = ([], Inl e)"
    by (simp add: offlineCA_Revoke_def bind_lift_Inl)
  have f: "\<forall>code. ReasonStringToCode (unicode_ToLower E) (Reason req) = Inr code
         \<longrightarrow> fst (offlineCA_Revoke E (Some ca) req)
               = [EvAuthorityRevoke (Serial req) ''provisioner-id'' code]"
    by (simp add: offlineCA_Revoke_def bind_lift_Inr)
       (simp add: bind_def emit_def checkExt_def ret_def split: option.splits)
  from a b c d e f show ?thesis by blast
qed

theorem ReasonStringToCode_total_on_names_witness:
  "(''KeyCompromise'', 1) \<in> set reasonNames
   \<and> ''KEYcompromise'' \<noteq> []
   \<and> ToLower (\<lambda>s. s) ''KEYcompromise'' = ToLower (\<lambda>s. s) ''KeyCompromise''
   \<and> ReasonStringToCode (\<lambda>s. s) ''KEYcompromise'' = Inr 1
   \<and> ReasonStringToCode (\<lambda>s. s) ''stolen'' = Inl (UnrecognizedReason ''stolen'')
   \<and> offlineCA_Revoke sampleEnv None \<lparr>Serial = ''123'', Reason = ''stolen'', RevokeOTT = ''native''\<rparr>
       = ([], Inl (UnrecognizedReason ''stolen''))"
  using ReasonStringToCode_total_on_names
    [of "\<lambda>s. s" sampleEnv "\<lparr>Serial = ''123'', Reason = ''stolen'', RevokeOTT = ''native''\<rparr>" None]
  by (simp add: reasonNames_def ReasonStringToCode_def RevocationReasonCodes_def ToLower_def
      isASCII_def lowerByte_def char_of_def bit_iff_odd sampleEnv_def)

lemma bind_ret: "bind (ret x) f = f x"
  by (simp add: bind_def ret_def split: prod.splits)

lemma bind_fail: "bind (fail e) f = ([], Inl e)"
  by (simp add: bind_def fail_def)

lemma bind_check_None: "bind (check None) f = f ()"
  by (simp add: bind_def check_def split: prod.splits)

lemma bind_check_Some: "bind (check (Some e)) f = ([], Inl e)"
  by (simp add: bind_def check_def)

lemma bind_checkExt_None: "bind (checkExt None) f = f ()"
  by (simp add: bind_def checkExt_def split: prod.splits)

lemma bind_checkExt_Some: "bind (checkExt (Some m)) f = ([], Inl (External m))"
  by (simp add: bind_def checkExt_def)

lemma bind_emit: "bind (emit ev) f = (ev # fst (f ()), snd (f ()))"
  by (simp add: bind_def emit_def split: prod.splits)

lemma bind_Inl: "bind (l, Inl e) f = (l, Inl e)"
  by (simp add: bind_def)

lemma bind_Inr: "bind (l, Inr x) f = (l @ fst (f x), snd (f x))"
  by (simp add: bind_def split: prod.splits)

lemma bind_nil_Inr: "bind ([], Inr x) f = f x"
  by (simp add: bind_def split: prod.splits)

lemmas bind_simps = bind_ret bind_fail bind_check_None bind_check_Some bind_checkExt_None
  bind_checkExt_Some bind_emit bind_lift_Inl bind_lift_Inr bind_Inl bind_Inr fail_def

section \<open>The flag checks of the two commands\<close>

text \<open>
  Claim C4, as amended. When the offline flag is set and the token flag is not empty,
  both commands fail having done nothing: no authority or client is built and no token
  is generated (the list of events is empty). The number of positional arguments is
  checked first: with exactly three (issue) or one (revoke) the error is the
  incompatible-flag error for offline and token, a FlagConflict; with fewer or more it
  is the argument-count error.
\<close>

theorem offline_with_token_conflict:
  assumes "flag_offline ctx" and "flag_token ctx \<noteq> []"
  shows "certificateAction E ctx =
           ([], Inl (if length (Args ctx) < 3 then TooFewArguments
                     else if 3 < length (Args ctx) then TooManyArguments
                     else IncompatibleFlagWithFlag ''offline'' ''token''))
       \<and> revokeCertificateAction E ctx =
           ([], Inl (if length (Args ctx) < 1 then TooFewArguments
                     else if 1 < length (Args ctx) then TooManyArguments
                     else IncompatibleFlagWithFlag ''offline'' ''token''))"
  using assms
  by (simp add: certificateAction_def revokeCertificateAction_def NumberOfArguments_def
      bind_simps Let_def)

theorem offline_with_token_conflict_witness:
  "flag_offline (sampleCtx\<lparr>Args := [''host.example.com'', ''crt'', ''key''], flag_offline := True, flag_token := ''native''\<rparr>)
   \<and> flag_token (sampleCtx\<lparr>Args := [''host.example.com'', ''crt'', ''key''], flag_offline := True, flag_token := ''native''\<rparr>) \<noteq> []
   \<and> certificateAction sampleEnv
        (sampleCtx\<lparr>Args := [''host.example.com'', ''crt'', ''key''], flag_offline := True, flag_token := ''native''\<rparr>)
       = ([], Inl (IncompatibleFlagWithFlag ''offline'' ''token''))
   \<and> revokeCertificateAction sampleEnv
        (sampleCtx\<lparr>Args := [''host.example.com'', ''crt'', ''key''], flag_offline := True, flag_token := ''native''\<rparr>)
       = ([], Inl TooManyArguments)"
  using offline_with_token_conflict [of "sampleCtx\<lparr>Args := [''host.example.com'', ''crt'', ''key''], flag_offline := True, flag_token := ''native''\<rparr>" sampleEnv]
  by (simp add: sampleCtx_def)

text \<open>
  The claim as stated ("regardless of all other flags and arguments") fails on an
  invocation with no positional argument: both commands return the argument-count
  error, which is not a FlagConflict.
\<close>

theorem offline_with_token_counterexample:
  "flag_offline (sampleCtx\<lparr>flag_offline := True, flag_token := ''native''\<rparr>)
   \<and> flag_token (sampleCtx\<lparr>flag_offline := True, flag_token := ''native''\<rparr>) \<noteq> []
   \<and> certificateAction sampleEnv (sampleCtx\<lparr>flag_offline := True, flag_token := ''native''\<rparr>)
       = ([], Inl TooFewArguments)
   \<and> revokeCertificateAction sampleEnv (sampleCtx\<lparr>flag_offline := True, flag_token := ''native''\<rparr>)
       = ([], Inl TooFewArguments)
   \<and> \<not> isFlagConflict TooFewArguments"
  by (simp add: certificateAction_def revokeCertificateAction_def NumberOfArguments_def
      bind_simps sampleCtx_def)

text \<open>
  With three positional arguments, a non-empty token that is classified
  authority-native and a non-empty SAN list fail with a FlagConflict before anything is
  built: the mutually-exclusive-flags error for token and san, or, when the offline
  flag is set as well, the incompatible-flag error for offline and token.
\<close>

lemma native_token_with_san_conflict:
  assumes "flag_token ctx \<noteq> []" and "flag_san ctx \<noteq> []"
    and "isStepCertificatesToken E (flag_token ctx)" and "length (Args ctx) = 3"
  shows "certificateAction E ctx =
           ([], Inl (if flag_offline ctx then IncompatibleFlagWithFlag ''offline'' ''token''
                     else MutuallyExclusiveFlags ''token'' ''san''))
       \<and> isFlagConflict (if flag_offline ctx then IncompatibleFlagWithFlag ''offline'' ''token''
                     else MutuallyExclusiveFlags ''token'' ''san'')"
  using assms
  by (simp add: certificateAction_def NumberOfArguments_def newCertificateFlow_def
      bind_simps Let_def)

lemma native_token_with_san_conflict_example:
  "flag_token (sampleCtx\<lparr>Args := [''host.example.com'', ''crt'', ''key''], flag_token := ''native'', flag_san := [''x'']\<rparr>) \<noteq> []
   \<and> flag_san (sampleCtx\<lparr>Args := [''host.example.com'', ''crt'', ''key''], flag_token := ''native'', flag_san := [''x'']\<rparr>) \<noteq> []
   \<and> isStepCertificatesToken sampleEnv ''native''
   \<and> certificateAction sampleEnv
        (sampleCtx\<lparr>Args := [''host.example.com'', ''crt'', ''key''], flag_token := ''native'', flag_san := [''x'']\<rparr>)
       = ([], Inl (MutuallyExclusiveFlags ''token'' ''san''))"
  using native_token_with_san_conflict
    [of "sampleCtx\<lparr>Args := [''host.example.com'', ''crt'', ''key''], flag_token := ''native'', flag_san := [''x'']\<rparr>" sampleEnv]
  by (simp add: sampleCtx_def sampleEnv_def isStepCertificatesToken_def nativeClaims_def)

section \<open>Building the remote client\<close>

lemma newClient_eq:
  "newClient E caURL options =
     ([EvPrintSelected ''CA'' caURL, EvNewClient caURL options],
      case ca_NewClient E caURL options of
        None \<Rightarrow> Inr (Remote caURL options)
      | Some msg \<Rightarrow> Inl (External msg))"
  by (simp add: newClient_def bind_simps ret_def checkExt_def split: option.splits)

lemma certificateFlow_getClient_online:
  assumes "\<not> offline f" and "jose_ParseSigned E token = Inr tok"
    and "jose_tokenClaims E tok = Inr claims"
  shows "certificateFlow_getClient E f ctx subject token =
     (if ToLower (unicode_ToLower E) (Subject claims) \<noteq> ToLower (unicode_ToLower E) subject
      then ([], Inl (TokenSubjectMismatch (Subject claims) subject))
      else if SHA claims \<noteq> [] \<and> Audience claims \<noteq> []
              \<and> HasPrefix (ToLower (unicode_ToLower E) (Audience claims ! 0)) ''http''
      then newClient E (Audience claims ! 0) [WithRootSHA256 (SHA claims)]
      else if flag_ca_url ctx = [] then ([], Inl (RequiredFlag ''ca-url''))
      else if flag_root ctx = [] \<and> \<not> os_Stat E (pki_GetRootCAPath E)
      then ([], Inl (RequiredFlag ''root''))
      else newClient E (flag_ca_url ctx)
             [WithRootFile (if flag_root ctx = [] then pki_GetRootCAPath E else flag_root ctx)])"
  using assms
  by (simp add: certificateFlow_getClient_def wrap_def bind_simps ret_def)

lemma revokeFlow_getClient_online:
  assumes "\<not> revokeOffline f" and "token \<noteq> []" and "jose_ParseSigned E token = Inr tok"
    and "jose_revokeTokenClaims E tok = Inr claims"
  shows "revokeFlow_getClient E f ctx serial token crtFile keyFile =
     (if ToLower (unicode_ToLower E) (Subject claims) \<noteq> ToLower (unicode_ToLower E) serial
      then ([], Inl (TokenSerialMismatch (Subject claims) serial))
      else if revokeSHA claims \<noteq> [] \<and> Audience claims \<noteq> []
              \<and> HasPrefix (ToLower (unicode_ToLower E) (Audience claims ! 0)) ''http''
      then newClient E (Audience claims ! 0) [WithRootSHA256 (revokeSHA claims)]
      else if flag_ca_url ctx = [] then ([], Inl (RequiredFlag ''ca-url''))
      else if flag_root ctx = [] \<and> \<not> os_Stat E (pki_GetRootCAPath E)
      then ([], Inl (RequiredFlag ''root''))
      else newClient E (flag_ca_url ctx)
             [WithRootFile (if flag_root ctx = [] then pki_GetRootCAPath E else flag_root ctx)])"
  using assms
  by (simp add: revokeFlow_getClient_def wrap_def bind_simps ret_def)




text \<open>
  Claim C2. For an online flow and a token that parses and whose subject matches: if
  the token has a non-empty \<open>sha\<close> claim and a first audience that starts with
  \<open>http\<close> once lowered, the client is built for that audience with the root pinned
  by the fingerprint, whatever the root flag and the default root file are. Otherwise
  the construction fails with the required-flag error when there is no CA URL, or when
  there is neither a root flag nor a default root file; else the client is built for
  the CA URL with the root flag's file, or the default root file when the flag is
  empty. Building the client prints the URL and calls \<open>ca.NewClient\<close> with the URL
  and that one option.
\<close>

theorem remote_client_root_of_trust:
  "(\<not> offline f \<and> jose_ParseSigned E token = Inr tok \<and> jose_tokenClaims E tok = Inr claims
      \<and> ToLower (unicode_ToLower E) (Subject claims) = ToLower (unicode_ToLower E) subject \<longrightarrow>
      (SHA claims \<noteq> [] \<and> Audience claims \<noteq> []
         \<and> HasPrefix (ToLower (unicode_ToLower E) (Audience claims ! 0)) ''http'' \<longrightarrow>
           certificateFlow_getClient E f ctx subject token
             = newClient E (Audience claims ! 0) [WithRootSHA256 (SHA claims)])
      \<and> (\<not> (SHA claims \<noteq> [] \<and> Audience claims \<noteq> []
              \<and> HasPrefix (ToLower (unicode_ToLower E) (Audience claims ! 0)) ''http'') \<longrightarrow>
           (flag_ca_url ctx = [] \<longrightarrow>
              certificateFlow_getClient E f ctx subject token = ([], Inl (RequiredFlag ''ca-url'')))
         \<and> (flag_ca_url ctx \<noteq> [] \<and> flag_root ctx = [] \<and> \<not> os_Stat E (pki_GetRootCAPath E) \<longrightarrow>
              certificateFlow_getClient E f ctx subject token = ([], Inl (RequiredFlag ''root'')))
         \<and> (flag_ca_url ctx \<noteq> [] \<and> flag_root ctx \<noteq> [] \<longrightarrow>
              certificateFlow_getClient E f ctx subject token
                = newClient E (flag_ca_url ctx) [WithRootFile (flag_root ctx)])
         \<and> (flag_ca_url ctx \<noteq> [] \<and> flag_root ctx = [] \<and> os_Stat E (pki_GetRootCAPath E) \<longrightarrow>
              certificateFlow_getClient E f ctx subject token
                = newClient E (flag_ca_url ctx) [WithRootFile (pki_GetRootCAPath E)])))
   \<and> (\<not> revokeOffline rf \<and> rtoken \<noteq> [] \<and> jose_ParseSigned E rtoken = Inr rtok
        \<and> jose_revokeTokenClaims E rtok = Inr rclaims
        \<and> ToLower (unicode_ToLower E) (Subject rclaims) = ToLower (unicode_ToLower E) serial \<longrightarrow>
      (revokeSHA rclaims \<noteq> [] \<and> Audience rclaims \<noteq> []
         \<and> HasPrefix (ToLower (unicode_ToLower E) (Audience rclaims ! 0)) ''http'' \<longrightarrow>
           revokeFlow_getClient E rf ctx serial rtoken crt key
             = newClient E (Audience rclaims ! 0) [WithRootSHA256 (revokeSHA rclaims)])
      \<and> (\<not> (revokeSHA rclaims \<noteq> [] \<and> Audience rclaims \<noteq> []
              \<and> HasPrefix (ToLower (unicode_ToLower E) (Audience rclaims ! 0)) ''http'') \<longrightarrow>
           (flag_ca_url ctx = [] \<longrightarrow>
              revokeFlow_getClient E rf ctx serial rtoken crt key = ([], Inl (RequiredFlag ''ca-url'')))
         \<and> (flag_ca_url ctx \<noteq> [] \<and> flag_root ctx = [] \<and> \<not> os_Stat E (pki_GetRootCAPath E) \<longrightarrow>
              revokeFlow_getClient E rf ctx serial rtoken crt key = ([], Inl (RequiredFlag ''root'')))
         \<and> (flag_ca_url ctx \<noteq> [] \<and> flag_root ctx \<noteq> [] \<longrightarrow>
              revokeFlow_getClient E rf ctx serial rtoken crt key
                = newClient E (flag_ca_url ctx) [WithRootFile (flag_root ctx)])
         \<and> (flag_ca_url ctx \<noteq> [] \<and> flag_root ctx = [] \<and> os_Stat E (pki_GetRootCAPath E) \<longrightarrow>
              revokeFlow_getClient E rf ctx serial rtoken crt key
                = newClient E (flag_ca_url ctx) [WithRootFile (pki_GetRootCAPath E)])))
   \<and> newClient E caURL options =
        ([EvPrintSelected ''CA'' caURL, EvNewClient caURL options],
         case ca_NewClient E caURL options of
           None \<Rightarrow> Inr (Remote caURL options)
         | Some msg \<Rightarrow> Inl (External msg))"
proof -
  have issue: "\<not> offline f \<and> jose_ParseSigned E token = Inr tok \<and> jose_tokenClaims E tok = Inr claims
      \<and> ToLower (unicode_ToLower E) (Subject claims) = ToLower (unicode_ToLower E) subject \<longrightarrow>
      (SHA claims \<noteq> [] \<and> Audience claims \<noteq> []
         \<and> HasPrefix (ToLower (unicode_ToLower E) (Audience claims ! 0)) ''http'' \<longrightarrow>
           certificateFlow_getClient E f ctx subject token
             = newClient E (Audience claims ! 0) [WithRootSHA256 (SHA claims)])
      \<and> (\<not> (SHA claims \<noteq> [] \<and> Audience claims \<noteq> []
              \<and> HasPrefix (ToLower (unicode_ToLower E) (Audience claims ! 0)) ''http'') \<longrightarrow>
           (flag_ca_url ctx = [] \<longrightarrow>
              certificateFlow_getClient E f ctx subject token = ([], Inl (RequiredFlag ''ca-url'')))
         \<and> (flag_ca_url ctx \<noteq> [] \<and> flag_root ctx = [] \<and> \<not> os_Stat E (pki_GetRootCAPath E) \<longrightarrow>
              certificateFlow_getClient E f ctx subject token = ([], Inl (RequiredFlag ''root'')))
         \<and> (flag_ca_url ctx \<noteq> [] \<and> flag_root ctx \<noteq> [] \<longrightarrow>
              certificateFlow_getClient E f ctx subject token
                = newClient E (flag_ca_url ctx) [WithRootFile (flag_root ctx)])
         \<and> (flag_ca_url ctx \<noteq> [] \<and> flag_root ctx = [] \<and> os_Stat E (pki_GetRootCAPath E) \<longrightarrow>
              certificateFlow_getClient E f ctx subject token
                = newClient E (flag_ca_url ctx) [WithRootFile (pki_GetRootCAPath E)]))"
  proof (intro impI, elim conjE)
    assume h: "\<not> offline f" "jose_ParseSigned E token = Inr tok" "jose_tokenClaims E tok = Inr claims"
      and m: "ToLower (unicode_ToLower E) (Subject claims) = ToLower (unicode_ToLower E) subject"
    show "(SHA claims \<noteq> [] \<and> Audience claims \<noteq> []
         \<and> HasPrefix (ToLower (unicode_ToLower E) (Audience claims ! 0)) ''http'' \<longrightarrow>
           certificateFlow_getClient E f ctx subject token
             = newClient E (Audience claims ! 0) [WithRootSHA256 (SHA claims)])
      \<and> (\<not> (SHA claims \<noteq> [] \<and> Audience claims \<noteq> []
              \<and> HasPrefix (ToLower (unicode_ToLower E) (Audience claims ! 0)) ''http'') \<longrightarrow>
           (flag_ca_url ctx = [] \<longrightarrow>
              certificateFlow_getClient E f ctx subject token = ([], Inl (RequiredFlag ''ca-url'')))
         \<and> (flag_ca_url ctx \<noteq> [] \<and> flag_root ctx = [] \<and> \<not> os_Stat E (pki_GetRootCAPath E) \<longrightarrow>
              certificateFlow_getClient E f ctx subject token = ([], Inl (RequiredFlag ''root'')))
         \<and> (flag_ca_url ctx \<noteq> [] \<and> flag_root ctx \<noteq> [] \<longrightarrow>
              certificateFlow_getClient E f ctx subject token
                = newClient E (flag_ca_url ctx) [WithRootFile (flag_root ctx)])
         \<and> (flag_ca_url ctx \<noteq> [] \<and> flag_root ctx = [] \<and> os_Stat E (pki_GetRootCAPath E) \<longrightarrow>
              certificateFlow_getClient E f ctx subject token
                = newClient E (flag_ca_url ctx) [WithRootFile (pki_GetRootCAPath E)]))"
      using m by (simp add: certificateFlow_getClient_online[OF h])
  qed
  have revoke: "\<not> revokeOffline rf \<and> rtoken \<noteq> [] \<and> jose_ParseSigned E rtoken = Inr rtok
        \<and> jose_revokeTokenClaims E rtok = Inr rclaims
        \<and> ToLower (unicode_ToLower E) (Subject rclaims) = ToLower (unicode_ToLower E) serial \<longrightarrow>
      (revokeSHA rclaims \<noteq> [] \<and> Audience rclaims \<noteq> []
         \<and> HasPrefix (ToLower (unicode_ToLower E) (Audience rclaims ! 0)) ''http'' \<longrightarrow>
           revokeFlow_getClient E rf ctx serial rtoken crt key
             = newClient E (Audience rclaims ! 0) [WithRootSHA256 (revokeSHA rclaims)])
      \<and> (\<not> (revokeSHA rclaims \<noteq> [] \<and> Audience rclaims \<noteq> []
              \<and> HasPrefix (ToLower (unicode_ToLower E) (Audience rclaims ! 0)) ''http'') \<longrightarrow>
           (flag_ca_url ctx = [] \<longrightarrow>
              revokeFlow_getClient E rf ctx serial rtoken crt key = ([], Inl (RequiredFlag ''ca-url'')))
         \<and> (flag_ca_url ctx \<noteq> [] \<and> flag_root ctx = [] \<and> \<not> os_Stat E (pki_GetRootCAPath E) \<longrightarrow>
              revokeFlow_getClient E rf ctx serial rtoken crt key = ([], Inl (RequiredFlag ''root'')))
         \<and> (flag_ca_url ctx \<noteq> [] \<and> flag_root ctx \<noteq> [] \<longrightarrow>
              revokeFlow_getClient E rf ctx serial rtoken crt key
                = newClient E (flag_ca_url ctx) [WithRootFile (flag_root ctx)])
         \<and> (flag_ca_url ctx \<noteq> [] \<and> flag_root ctx = [] \<and> os_Stat E (pki_GetRootCAPath E) \<longrightarrow>
              revokeFlow_getClient E rf ctx serial rtoken crt key
                = newClient E (flag_ca_url ctx) [WithRootFile (pki_GetRootCAPath E)]))"
  proof (intro impI, elim conjE)
    assume h: "\<not> revokeOffline rf" "rtoken \<noteq> []" "jose_ParseSigned E rtoken = Inr rtok"
        "jose_revokeTokenClaims E rtok = Inr rclaims"
      and m: "ToLower (unicode_ToLower E) (Subject rclaims) = ToLower (unicode_ToLower E) serial"
    show "(revokeSHA rclaims \<noteq> [] \<and> Audience rclaims \<noteq> []
         \<and> HasPrefix (ToLower (unicode_ToLower E) (Audience rclaims ! 0)) ''http'' \<longrightarrow>
           revokeFlow_getClient E rf ctx serial rtoken crt key
             = newClient E (Audience rclaims ! 0) [WithRootSHA256 (revokeSHA rclaims)])
      \<and> (\<not> (revokeSHA rclaims \<noteq> [] \<and> Audience rclaims \<noteq> []
              \<and> HasPrefix (ToLower (unicode_ToLower E) (Audience rclaims ! 0)) ''http'') \<longrightarrow>
           (flag_ca_url ctx = [] \<longrightarrow>
              revokeFlow_getClient E rf ctx serial rtoken crt key = ([], Inl (RequiredFlag ''ca-url'')))
         \<and> (flag_ca_url ctx \<noteq> [] \<and> flag_root ctx = [] \<and> \<not> os_Stat E (pki_GetRootCAPath E) \<longrightarrow>
              revokeFlow_getClient E rf ctx serial rtoken crt key = ([], Inl (RequiredFlag ''root'')))
         \<and> (flag_ca_url ctx \<noteq> [] \<and> flag_root ctx \<noteq> [] \<longrightarrow>
              revokeFlow_getClient E rf ctx serial rtoken crt key
                = newClient E (flag_ca_url ctx) [WithRootFile (flag_root ctx)])
         \<and> (flag_ca_url ctx \<noteq> [] \<and> flag_root ctx = [] \<and> os_Stat E (pki_GetRootCAPath E) \<longrightarrow>
              revokeFlow_getClient E rf ctx serial rtoken crt key
                = newClient E (flag_ca_url ctx) [WithRootFile (pki_GetRootCAPath E)]))"
      using m by (simp add: revokeFlow_getClient_online[OF h])
  qed
  from issue revoke newClient_eq[of E caURL options] show ?thesis by (intro conjI)
qed

theorem remote_client_root_of_trust_witness:
  "\<not> offline \<lparr>offlineCA = None, offline = False\<rparr>
   \<and> jose_ParseSigned sampleEnv ''native'' = Inr ''native''
   \<and> jose_tokenClaims sampleEnv ''native'' = Inr nativeClaims
   \<and> ToLower (unicode_ToLower sampleEnv) (Subject nativeClaims)
        = ToLower (unicode_ToLower sampleEnv) ''Host.Example.COM''
   \<and> SHA nativeClaims \<noteq> [] \<and> Audience nativeClaims \<noteq> []
   \<and> HasPrefix (ToLower (unicode_ToLower sampleEnv) (Audience nativeClaims ! 0)) ''http''
   \<and> flag_root sampleCtx = [] \<and> \<not> os_Stat sampleEnv (pki_GetRootCAPath sampleEnv)
   \<and> certificateFlow_getClient sampleEnv \<lparr>offlineCA = None, offline = False\<rparr> sampleCtx
        ''Host.Example.COM'' ''native''
       = ([EvPrintSelected ''CA'' ''https://ca.example.com/sign'',
           EvNewClient ''https://ca.example.com/sign'' [WithRootSHA256 ''c0ffee'']],
          Inr (Remote ''https://ca.example.com/sign'' [WithRootSHA256 ''c0ffee'']))
   \<and> jose_tokenClaims sampleEnv ''plain'' = Inr plainClaims
   \<and> SHA plainClaims = []
   \<and> certificateFlow_getClient sampleEnv \<lparr>offlineCA = None, offline = False\<rparr>
        (sampleCtx\<lparr>flag_ca_url := ''https://ca''\<rparr>) ''host.example.com'' ''plain''
       = ([], Inl (RequiredFlag ''root''))
   \<and> certificateFlow_getClient sampleEnv \<lparr>offlineCA = None, offline = False\<rparr>
        (sampleCtx\<lparr>flag_ca_url := ''https://ca'', flag_root := ''root.crt''\<rparr>) ''host.example.com'' ''plain''
       = ([EvPrintSelected ''CA'' ''https://ca'', EvNewClient ''https://ca'' [WithRootFile ''root.crt'']],
          Inr (Remote ''https://ca'' [WithRootFile ''root.crt'']))"
proof -
  have ev:
    "\<not> offline \<lparr>offlineCA = None, offline = False\<rparr>
      \<and> jose_ParseSigned sampleEnv ''native'' = Inr ''native''
      \<and> jose_tokenClaims sampleEnv ''native'' = Inr nativeClaims
      \<and> ToLower (unicode_ToLower sampleEnv) (Subject nativeClaims)
           = ToLower (unicode_ToLower sampleEnv) ''Host.Example.COM''
      \<and> SHA nativeClaims \<noteq> [] \<and> Audience nativeClaims \<noteq> []
      \<and> HasPrefix (ToLower (unicode_ToLower sampleEnv) (Audience nativeClaims ! 0)) ''http''
      \<and> flag_root sampleCtx = [] \<and> \<not> os_Stat sampleEnv (pki_GetRootCAPath sampleEnv)
      \<and> certificateFlow_getClient sampleEnv \<lparr>offlineCA = None, offline = False\<rparr> sampleCtx
           ''Host.Example.COM'' ''native''
          = ([EvPrintSelected ''CA'' ''https://ca.example.com/sign'',
              EvNewClient ''https://ca.example.com/sign'' [WithRootSHA256 ''c0ffee'']],
             Inr (Remote ''https://ca.example.com/sign'' [WithRootSHA256 ''c0ffee'']))
      \<and> jose_tokenClaims sampleEnv ''plain'' = Inr plainClaims
      \<and> SHA plainClaims = []
      \<and> certificateFlow_getClient sampleEnv \<lparr>offlineCA = None, offline = False\<rparr>
           (sampleCtx\<lparr>flag_ca_url := ''https://ca''\<rparr>) ''host.example.com'' ''plain''
          = ([], Inl (RequiredFlag ''root''))
      \<and> certificateFlow_getClient sampleEnv \<lparr>offlineCA = None, offline = False\<rparr>
           (sampleCtx\<lparr>flag_ca_url := ''https://ca'', flag_root := ''root.crt''\<rparr>) ''host.example.com'' ''plain''
          = ([EvPrintSelected ''CA'' ''https://ca'', EvNewClient ''https://ca'' [WithRootFile ''root.crt'']],
             Inr (Remote ''https://ca'' [WithRootFile ''root.crt'']))"
    by code_simp
  from remote_client_root_of_trust
      [where f = "\<lparr>offlineCA = None, offline = False\<rparr>" and E = sampleEnv
        and token = "''native''" and tok = "''native''" and claims = nativeClaims
        and ctx = sampleCtx and subject = "''Host.Example.COM''"
        and rf = "\<lparr>revokeOfflineCA = None, revokeOffline = False\<rparr>"
        and rtoken = "''revoke''" and rtok = "''revoke''" and rclaims = revokeClaims
        and serial = "''abcdef''" and crt = "[]" and key = "[]"] ev
  show ?thesis by simp
qed

section \<open>The certificate request\<close>

lemma CreateSignRequest_log: "fst (CreateSignRequest E token sans) = []"
  by (simp add: CreateSignRequest_def bind_def lift_def check_def ret_def wrap_def ext_def Let_def
      split: sum.splits option.splits prod.splits)

lemma CreateSignRequest_Inr:
  assumes "jose_ParseSigned E token = Inr tok" and "jose_tokenClaims E tok = Inr claims"
    and "CreateSignRequest E token sans = (l, Inr (req, pk))"
  shows "l = [] \<and> keys_GenerateDefaultKey E = Inr pk \<and> OTT req = token
     \<and> (\<exists>der. x509_CreateCertificateRequest E
                 \<lparr>CommonName = Subject claims,
                  DNSNames = fst (splitSANs (net_ParseIP E) [sans, SANs claims]),
                  IPAddresses = snd (splitSANs (net_ParseIP E) [sans, SANs claims]),
                  EmailAddresses = (if Email claims \<noteq> [] then [Email claims] else [])\<rparr> pk = Inr der
              \<and> x509_ParseCertificateRequest E der = Inr (CsrPEM req)
              \<and> x509_CheckSignature E der = None)"
  using assms
  by (auto simp: CreateSignRequest_def bind_def lift_def check_def ret_def wrap_def ext_def Let_def
      split: sum.splits option.splits prod.splits if_splits)

lemma CreateSignRequest_faithful:
  assumes "jose_ParseSigned E token = Inr tok" and "jose_tokenClaims E tok = Inr claims"
    and "CreateSignRequest E token sans = (l, Inr (req, pk))" and "x509_faithful E"
  shows "CsrPEM req =
           \<lparr>CommonName = Subject claims,
            DNSNames = fst (splitSANs (net_ParseIP E) [sans, SANs claims]),
            IPAddresses = snd (splitSANs (net_ParseIP E) [sans, SANs claims]),
            EmailAddresses = (if Email claims \<noteq> [] then [Email claims] else [])\<rparr>"
proof -
  from CreateSignRequest_Inr[OF assms(1-3)] obtain der where
    "x509_CreateCertificateRequest E
                 \<lparr>CommonName = Subject claims,
                  DNSNames = fst (splitSANs (net_ParseIP E) [sans, SANs claims]),
                  IPAddresses = snd (splitSANs (net_ParseIP E) [sans, SANs claims]),
                  EmailAddresses = (if Email claims \<noteq> [] then [Email claims] else [])\<rparr> pk = Inr der"
    and "x509_ParseCertificateRequest E der = Inr (CsrPEM req)" by blast
  with assms(4) show ?thesis unfolding x509_faithful_def by fastforce
qed

text \<open>
  Claim C6, as amended. With no SANs from the caller and a token whose subject is
  \<open>host.example.com\<close>, the request that \<open>CreateSignRequest\<close> returns has the common
  name \<open>host.example.com\<close>; when the token declares no SANs it has no DNS name and no
  IP address, and it has the single DNS name \<open>host.example.com\<close> when the token
  declares exactly that SAN. (The certificate library is assumed to parse back what it
  encoded.)
\<close>

theorem CreateSignRequest_no_default_san:
  assumes "jose_ParseSigned E token = Inr tok" and "jose_tokenClaims E tok = Inr claims"
    and "Subject claims = ''host.example.com''"
    and "CreateSignRequest E token [] = (l, Inr (req, pk))" and "x509_faithful E"
  shows "CommonName (CsrPEM req) = ''host.example.com''
     \<and> (SANs claims = [] \<longrightarrow> DNSNames (CsrPEM req) = [] \<and> IPAddresses (CsrPEM req) = [])
     \<and> (SANs claims = [''host.example.com''] \<and> net_ParseIP E ''host.example.com'' = None \<longrightarrow>
          DNSNames (CsrPEM req) = [''host.example.com''] \<and> IPAddresses (CsrPEM req) = [])"
  using assms(3)
  by (simp add: CreateSignRequest_faithful[OF assms(1,2,4,5)] splitSANs_def uniqueSANs_def
      uniqueStep_def seen_def)

theorem CreateSignRequest_no_default_san_witness:
  "jose_ParseSigned sampleEnv ''native'' = Inr ''native''
   \<and> jose_tokenClaims sampleEnv ''native'' = Inr nativeClaims
   \<and> Subject nativeClaims = ''host.example.com''
   \<and> SANs nativeClaims = []
   \<and> x509_faithful sampleEnv
   \<and> CreateSignRequest sampleEnv ''native'' []
       = ([], Inr (\<lparr>CsrPEM = \<lparr>CommonName = ''host.example.com'', DNSNames = [],
                                IPAddresses = [], EmailAddresses = []\<rparr>,
                     OTT = ''native'', NotBefore = 0, NotAfter = 0\<rparr>, 7))
   \<and> DNSNames \<lparr>CommonName = ''host.example.com'', DNSNames = [],
                 IPAddresses = [], EmailAddresses = []\<rparr> = []"
proof -
  have ev: "jose_ParseSigned sampleEnv ''native'' = Inr ''native''
   \<and> jose_tokenClaims sampleEnv ''native'' = Inr nativeClaims
   \<and> Subject nativeClaims = ''host.example.com''
   \<and> SANs nativeClaims = []
   \<and> CreateSignRequest sampleEnv ''native'' []
       = ([], Inr (\<lparr>CsrPEM = \<lparr>CommonName = ''host.example.com'', DNSNames = [],
                                IPAddresses = [], EmailAddresses = []\<rparr>,
                     OTT = ''native'', NotBefore = 0, NotAfter = 0\<rparr>, 7))"
    by code_simp
  have fa: "x509_faithful sampleEnv"
    by (simp add: x509_faithful_def sampleEnv_def)
  from CreateSignRequest_no_default_san
    [where E = sampleEnv and token = "''native''" and tok = "''native''" and claims = nativeClaims
       and l = "[]" and pk = 7
       and req = "\<lparr>CsrPEM = \<lparr>CommonName = ''host.example.com'', DNSNames = [],
                                IPAddresses = [], EmailAddresses = []\<rparr>,
                     OTT = ''native'', NotBefore = 0, NotAfter = 0\<rparr>"] ev fa
  show ?thesis by simp
qed

text \<open>
  The claim as stated fails: for the sample token, whose subject is
  \<open>host.example.com\<close> and which declares no SANs, the request has no DNS name.
\<close>

theorem CreateSignRequest_default_san_counterexample:
  "jose_ParseSigned sampleEnv ''native'' = Inr ''native''
   \<and> jose_tokenClaims sampleEnv ''native'' = Inr nativeClaims
   \<and> Subject nativeClaims = ''host.example.com''
   \<and> SANs nativeClaims = []
   \<and> CreateSignRequest sampleEnv ''native'' []
       = ([], Inr (\<lparr>CsrPEM = \<lparr>CommonName = ''host.example.com'', DNSNames = [],
                                IPAddresses = [], EmailAddresses = []\<rparr>,
                     OTT = ''native'', NotBefore = 0, NotAfter = 0\<rparr>, 7))
   \<and> DNSNames (CsrPEM (fst (projr (snd (CreateSignRequest sampleEnv ''native'' [])))))
       \<noteq> [''host.example.com'']"
  by code_simp

section \<open>Events and errors of the steps of the issue flow\<close>

lemma fst_bind:
  "fst (bind m f) = fst m @ (case snd m of Inl e \<Rightarrow> [] | Inr x \<Rightarrow> fst (f x))"
  by (cases m) (simp add: bind_def split: sum.splits prod.splits)

lemma snd_bind:
  "snd (bind m f) = (case snd m of Inl e \<Rightarrow> Inl e | Inr x \<Rightarrow> snd (f x))"
  by (cases m) (simp add: bind_def split: sum.splits prod.splits)

lemmas step_defs = emit_def lift_def ret_def fail_def check_def checkExt_def ext_def wrap_def

lemma newClient_writes: "filter isWrite (fst (newClient E caURL options)) = []"
  by (simp add: newClient_eq)

lemma certificateFlow_getClient_writes:
  "filter isWrite (fst (certificateFlow_getClient E f ctx subject token)) = []"
  by (simp add: certificateFlow_getClient_def fst_bind snd_bind step_defs newClient_writes
      split: sum.splits prod.splits)

lemma offlineCA_Sign_writes: "filter isWrite (fst (offlineCA_Sign E c req)) = []"
  by (simp add: offlineCA_Sign_def fst_bind snd_bind step_defs
      split: sum.splits prod.splits option.splits)

lemma caClient_Sign_writes: "filter isWrite (fst (caClient_Sign E client req)) = []"
  by (simp add: caClient_Sign_def offlineCA_Sign_writes fst_bind snd_bind step_defs
      split: sum.splits prod.splits caClient.splits)

lemma newOfflineCA_writes: "filter isWrite (fst (newOfflineCA E file)) = []"
  by (simp add: newOfflineCA_def fst_bind snd_bind step_defs split: sum.splits prod.splits)

lemma newCertificateFlow_writes: "filter isWrite (fst (newCertificateFlow E ctx)) = []"
  by (simp add: newCertificateFlow_def newOfflineCA_writes fst_bind snd_bind step_defs
      split: sum.splits prod.splits)

lemma certificateFlow_GenerateToken_writes:
  "filter isWrite (fst (certificateFlow_GenerateToken E f ctx subject sans)) = []"
  by (simp add: certificateFlow_GenerateToken_def fst_bind snd_bind step_defs
      split: sum.splits prod.splits option.splits)

lemma checkSubject_log: "fst (checkSubject E isStepToken subject csr) = []"
  by (simp add: checkSubject_def step_defs)

lemma certificateFlow_getClient_writes':
  "certificateFlow_getClient E f ctx subject token = (l, r) \<Longrightarrow> filter isWrite l = []"
  using certificateFlow_getClient_writes[of E f ctx subject token] by simp

lemma caClient_Sign_writes':
  "caClient_Sign E client req = (l, r) \<Longrightarrow> filter isWrite l = []"
  using caClient_Sign_writes[of E client req] by simp

lemma newClient_errors:
  "snd (newClient E caURL options) = Inl e \<Longrightarrow> \<not> isCommonNameMismatch e \<and> \<not> isEmailCheckError e \<and> \<not> isFlagConflict e"
  by (auto simp: newClient_eq split: option.splits)

lemma certificateFlow_getClient_errors:
  "snd (certificateFlow_getClient E f ctx subject token) = Inl e
     \<Longrightarrow> \<not> isCommonNameMismatch e \<and> \<not> isEmailCheckError e \<and> \<not> isFlagConflict e"
  by (auto simp: certificateFlow_getClient_def snd_bind step_defs
      split: sum.splits prod.splits if_splits dest: newClient_errors)

lemma offlineCA_Sign_errors:
  "snd (offlineCA_Sign E c req) = Inl e \<Longrightarrow> \<not> isCommonNameMismatch e \<and> \<not> isEmailCheckError e \<and> \<not> isFlagConflict e"
  by (auto simp: offlineCA_Sign_def snd_bind step_defs Panic_def
      split: sum.splits prod.splits option.splits)

lemma caClient_Sign_errors:
  "snd (caClient_Sign E client req) = Inl e \<Longrightarrow> \<not> isCommonNameMismatch e \<and> \<not> isEmailCheckError e \<and> \<not> isFlagConflict e"
  by (auto simp: caClient_Sign_def snd_bind step_defs
      split: sum.splits prod.splits caClient.splits dest: offlineCA_Sign_errors)

lemma certificateFlow_Sign_unfold:
  "certificateFlow_Sign E f ctx token csr crtFile =
     (case certificateFlow_getClient E f ctx (CommonName csr) token of
        (l1, Inl e) \<Rightarrow> (l1, Inl e)
      | (l1, Inr client) \<Rightarrow>
          (case parseValidity E ctx of
             Inl msg \<Rightarrow> (l1, Inl (External msg))
           | Inr (notBefore, notAfter) \<Rightarrow>
               (case caClient_Sign E client
                       \<lparr>CsrPEM = csr, OTT = token, NotBefore = notBefore, NotAfter = notAfter\<rparr> of
                  (l2, Inl e) \<Rightarrow> (l1 @ l2, Inl e)
                | (l2, Inr resp) \<Rightarrow>
                    (case pemutil_Serialize E (ServerPEM resp) of
                       Inl msg \<Rightarrow> (l1 @ l2, Inl (External msg))
                     | Inr serverBlock \<Rightarrow>
                         (case pemutil_Serialize E (CaPEM resp) of
                            Inl msg \<Rightarrow> (l1 @ l2, Inl (External msg))
                          | Inr caBlock \<Rightarrow>
                              (l1 @ l2 @ [EvWriteFile crtFile
                                  (pem_EncodeToMemory E serverBlock @ pem_EncodeToMemory E caBlock)],
                               case utils_WriteFile E crtFile
                                  (pem_EncodeToMemory E serverBlock @ pem_EncodeToMemory E caBlock) of
                                 None \<Rightarrow> Inr ()
                               | Some msg \<Rightarrow> Inl (External msg)))))))"
  by (simp add: certificateFlow_Sign_def bind_def step_defs
      split: sum.splits prod.splits option.splits)

text \<open>
  A run of \<open>Sign\<close> either fails before anything is written, or every step up to the
  encoding of the response succeeded and the one write is that of the certificate file.
\<close>

lemma certificateFlow_Sign_cases:
  "(\<exists>l e. certificateFlow_Sign E f ctx token csr crtFile = (l, Inl e) \<and> filter isWrite l = []
       \<and> \<not> isCommonNameMismatch e \<and> \<not> isEmailCheckError e \<and> \<not> isFlagConflict e)
   \<or> (\<exists>l1 client notBefore notAfter l2 resp serverBlock caBlock.
         certificateFlow_getClient E f ctx (CommonName csr) token = (l1, Inr client)
         \<and> parseValidity E ctx = Inr (notBefore, notAfter)
         \<and> caClient_Sign E client
               \<lparr>CsrPEM = csr, OTT = token, NotBefore = notBefore, NotAfter = notAfter\<rparr> = (l2, Inr resp)
         \<and> pemutil_Serialize E (ServerPEM resp) = Inr serverBlock
         \<and> pemutil_Serialize E (CaPEM resp) = Inr caBlock
         \<and> filter isWrite (l1 @ l2) = []
         \<and> certificateFlow_Sign E f ctx token csr crtFile =
             (l1 @ l2 @ [EvWriteFile crtFile
                 (pem_EncodeToMemory E serverBlock @ pem_EncodeToMemory E caBlock)],
              case utils_WriteFile E crtFile
                 (pem_EncodeToMemory E serverBlock @ pem_EncodeToMemory E caBlock) of
                None \<Rightarrow> Inr ()
              | Some msg \<Rightarrow> Inl (External msg)))"
proof (cases "certificateFlow_getClient E f ctx (CommonName csr) token")
  case (Pair l1 r1)
  note w1 = certificateFlow_getClient_writes'[OF Pair]
  show ?thesis
  proof (cases r1)
    case (Inl e)
    with Pair certificateFlow_getClient_errors[of E f ctx "CommonName csr" token e] w1
    show ?thesis by (simp add: certificateFlow_Sign_unfold)
  next
    case client: (Inr client)
    show ?thesis
    proof (cases "parseValidity E ctx")
      case (Inl msg)
      with Pair client w1 show ?thesis by (simp add: certificateFlow_Sign_unfold)
    next
      case (Inr v)
      obtain notBefore notAfter where v: "v = (notBefore, notAfter)" by (cases v)
      show ?thesis
      proof (cases "caClient_Sign E client
               \<lparr>CsrPEM = csr, OTT = token, NotBefore = notBefore, NotAfter = notAfter\<rparr>")
        case sg: (Pair l2 r2)
        note w2 = caClient_Sign_writes'[OF sg]
        show ?thesis
        proof (cases r2)
          case (Inl e)
          with Pair client Inr v sg w1 w2
            caClient_Sign_errors[of E client
               "\<lparr>CsrPEM = csr, OTT = token, NotBefore = notBefore, NotAfter = notAfter\<rparr>" e]
          show ?thesis by (simp add: certificateFlow_Sign_unfold)
        next
          case resp: (Inr resp)
          show ?thesis
          proof (cases "pemutil_Serialize E (ServerPEM resp)")
            case (Inl msg)
            with Pair client Inr v sg resp w1 w2 show ?thesis
              by (simp add: certificateFlow_Sign_unfold)
          next
            case sb: (Inr serverBlock)
            show ?thesis
            proof (cases "pemutil_Serialize E (CaPEM resp)")
              case (Inl msg)
              with Pair client Inr v sg resp sb w1 w2 show ?thesis
                by (simp add: certificateFlow_Sign_unfold)
            next
              case cb: (Inr caBlock)
              have "certificateFlow_Sign E f ctx token csr crtFile =
                 (l1 @ l2 @ [EvWriteFile crtFile
                     (pem_EncodeToMemory E serverBlock @ pem_EncodeToMemory E caBlock)],
                  case utils_WriteFile E crtFile
                     (pem_EncodeToMemory E serverBlock @ pem_EncodeToMemory E caBlock) of
                    None \<Rightarrow> Inr ()
                  | Some msg \<Rightarrow> Inl (External msg))"
                using Pair client Inr v sg resp sb cb by (simp add: certificateFlow_Sign_unfold)
              moreover have "filter isWrite (l1 @ l2) = []" using w1 w2 by simp
              ultimately show ?thesis using Pair client Inr v sg resp sb cb by blast
            qed
          qed
        qed
      qed
    qed
  qed
qed

section \<open>The order of the writes of the issue command\<close>

text \<open>
  A property of results that holds of every failure without a write, and still holds
  when events that write nothing are put in front, holds of \<open>bind m f\<close> as soon as
  \<open>m\<close> writes nothing and the property holds of what follows.
\<close>

lemma bind_shape:
  assumes m: "filter isWrite (fst m) = []"
    and ok: "\<And>x. snd m = Inr x \<Longrightarrow> P (fst (f x)) (snd (f x))"
    and pre: "\<And>l l' r. filter isWrite l = [] \<Longrightarrow> P l' r \<Longrightarrow> P (l @ l') r"
    and err: "\<And>l e. filter isWrite l = [] \<Longrightarrow> P l (Inl e)"
  shows "P (fst (bind m f)) (snd (bind m f))"
proof (cases "snd m")
  case (Inl e)
  then show ?thesis using m err by (simp add: fst_bind snd_bind)
next
  case (Inr x)
  with ok[OF Inr] pre[OF m] show ?thesis by (simp add: fst_bind snd_bind)
qed

lemma writeOrder_Inl: "filter isWrite l = [] \<Longrightarrow> writeOrder E ctx l (Inl e)"
  by (simp add: writeOrder_def)

lemma writeOrder_prefix:
  "filter isWrite l = [] \<Longrightarrow> writeOrder E ctx l' r \<Longrightarrow> writeOrder E ctx (l @ l') r"
  by (auto simp: writeOrder_def)

lemma writeOrder_Sign:
  "writeOrder E ctx
     (fst (bind (certificateFlow_Sign E flow ctx token csr (Get (Args ctx) 1)) (\<lambda>_.
         bind (emit (EvSerializeToFile pk (Get (Args ctx) 2))) (\<lambda>_.
         bind (checkExt (pemutil_SerializeToFile E pk (Get (Args ctx) 2))) (\<lambda>_.
         bind (emit (EvPrintSelected ''Certificate'' (Get (Args ctx) 1))) (\<lambda>_.
         emit (EvPrintSelected ''Private Key'' (Get (Args ctx) 2))))))))
     (snd (bind (certificateFlow_Sign E flow ctx token csr (Get (Args ctx) 1)) (\<lambda>_.
         bind (emit (EvSerializeToFile pk (Get (Args ctx) 2))) (\<lambda>_.
         bind (checkExt (pemutil_SerializeToFile E pk (Get (Args ctx) 2))) (\<lambda>_.
         bind (emit (EvPrintSelected ''Certificate'' (Get (Args ctx) 1))) (\<lambda>_.
         emit (EvPrintSelected ''Private Key'' (Get (Args ctx) 2))))))))"
  (is "writeOrder E ctx (fst ?R) (snd ?R)")
proof -
  from certificateFlow_Sign_cases[of E flow ctx token csr "Get (Args ctx) 1"]
  consider
    (fail) l e where "certificateFlow_Sign E flow ctx token csr (Get (Args ctx) 1) = (l, Inl e)"
      "filter isWrite l = []"
  | (sign) l1 client notBefore notAfter l2 resp serverBlock caBlock where
       "certificateFlow_getClient E flow ctx (CommonName csr) token = (l1, Inr client)"
       "parseValidity E ctx = Inr (notBefore, notAfter)"
       "caClient_Sign E client
             \<lparr>CsrPEM = csr, OTT = token, NotBefore = notBefore, NotAfter = notAfter\<rparr> = (l2, Inr resp)"
       "pemutil_Serialize E (ServerPEM resp) = Inr serverBlock"
       "pemutil_Serialize E (CaPEM resp) = Inr caBlock"
       "filter isWrite (l1 @ l2) = []"
       "certificateFlow_Sign E flow ctx token csr (Get (Args ctx) 1) =
           (l1 @ l2 @ [EvWriteFile (Get (Args ctx) 1)
               (pem_EncodeToMemory E serverBlock @ pem_EncodeToMemory E caBlock)],
            case utils_WriteFile E (Get (Args ctx) 1)
               (pem_EncodeToMemory E serverBlock @ pem_EncodeToMemory E caBlock) of
              None \<Rightarrow> Inr ()
            | Some msg \<Rightarrow> Inl (External msg))"
    by blast
  then show ?thesis
  proof cases
    case fail
    then show ?thesis by (simp add: writeOrder_def bind_Inl)
  next
    case sign
    let ?d = "pem_EncodeToMemory E serverBlock @ pem_EncodeToMemory E caBlock"
    have chain: "signedChain E ctx ?d"
      unfolding signedChain_def using sign(1-5) by blast
    show ?thesis
    proof (cases "utils_WriteFile E (Get (Args ctx) 1) ?d")
      case (Some msg)
      have "filter isWrite (fst ?R) = [EvWriteFile (Get (Args ctx) 1) ?d]"
        and "snd ?R = Inl (External msg)"
        using sign(6,7) Some by (simp_all add: bind_Inl)
      with chain Some show ?thesis unfolding writeOrder_def by blast
    next
      case None
      have "filter isWrite (fst ?R) =
              [EvWriteFile (Get (Args ctx) 1) ?d, EvSerializeToFile pk (Get (Args ctx) 2)]"
        using sign(6,7) None
        by (simp add: bind_Inr bind_emit fst_bind snd_bind checkExt_def emit_def
            split: option.splits)
      with chain None show ?thesis unfolding writeOrder_def by blast
    qed
  qed
qed

lemma writeOrder_certificateAction:
  "writeOrder E ctx (fst (certificateAction E ctx)) (snd (certificateAction E ctx))"
  unfolding certificateAction_def Let_def
proof (rule bind_shape[where P = "writeOrder E ctx", OF _ _ writeOrder_prefix writeOrder_Inl],
    goal_cases)
  case 1
  show ?case by (simp add: check_def split: option.splits)
next
  case (2 u)
  show ?case
  proof (cases "flag_offline ctx \<and> length (flag_token ctx) \<noteq> 0")
    case True
    then show ?thesis by (simp add: fail_def writeOrder_Inl)
  next
    case False
    have tokenw: "filter isWrite (fst
         (if length (flag_token ctx) = 0 then
            bind (certificateFlow_GenerateToken E flow ctx (Get (Args ctx) 0) (flag_san ctx)) (\<lambda>token.
            ret (token, isStepCertificatesToken E token))
          else if isStepCertificatesToken E (flag_token ctx) \<and> length (flag_san ctx) > 0
            then fail (MutuallyExclusiveFlags ''token'' ''san'')
          else ret (flag_token ctx, isStepCertificatesToken E (flag_token ctx)))) = []" for flow
      by (simp add: fst_bind certificateFlow_GenerateToken_writes ret_def fail_def
          split: sum.splits)
    have main: "writeOrder E ctx
       (fst (bind (newCertificateFlow E ctx) (\<lambda>flow.
         bind
           (if length (flag_token ctx) = 0 then
              bind (certificateFlow_GenerateToken E flow ctx (Get (Args ctx) 0) (flag_san ctx)) (\<lambda>token.
              ret (token, isStepCertificatesToken E token))
            else if isStepCertificatesToken E (flag_token ctx) \<and> length (flag_san ctx) > 0
              then fail (MutuallyExclusiveFlags ''token'' ''san'')
            else ret (flag_token ctx, isStepCertificatesToken E (flag_token ctx)))
           (\<lambda>(token, isStepToken).
         bind (CreateSignRequest E token (flag_san ctx)) (\<lambda>(req, pk).
         bind (checkSubject E isStepToken (Get (Args ctx) 0) (CsrPEM req)) (\<lambda>_.
         bind (certificateFlow_Sign E flow ctx token (CsrPEM req) (Get (Args ctx) 1)) (\<lambda>_.
         bind (emit (EvSerializeToFile pk (Get (Args ctx) 2))) (\<lambda>_.
         bind (checkExt (pemutil_SerializeToFile E pk (Get (Args ctx) 2))) (\<lambda>_.
         bind (emit (EvPrintSelected ''Certificate'' (Get (Args ctx) 1))) (\<lambda>_.
         emit (EvPrintSelected ''Private Key'' (Get (Args ctx) 2))))))))))))
       (snd (bind (newCertificateFlow E ctx) (\<lambda>flow.
         bind
           (if length (flag_token ctx) = 0 then
              bind (certificateFlow_GenerateToken E flow ctx (Get (Args ctx) 0) (flag_san ctx)) (\<lambda>token.
              ret (token, isStepCertificatesToken E token))
            else if isStepCertificatesToken E (flag_token ctx) \<and> length (flag_san ctx) > 0
              then fail (MutuallyExclusiveFlags ''token'' ''san'')
            else ret (flag_token ctx, isStepCertificatesToken E (flag_token ctx)))
           (\<lambda>(token, isStepToken).
         bind (CreateSignRequest E token (flag_san ctx)) (\<lambda>(req, pk).
         bind (checkSubject E isStepToken (Get (Args ctx) 0) (CsrPEM req)) (\<lambda>_.
         bind (certificateFlow_Sign E flow ctx token (CsrPEM req) (Get (Args ctx) 1)) (\<lambda>_.
         bind (emit (EvSerializeToFile pk (Get (Args ctx) 2))) (\<lambda>_.
         bind (checkExt (pemutil_SerializeToFile E pk (Get (Args ctx) 2))) (\<lambda>_.
         bind (emit (EvPrintSelected ''Certificate'' (Get (Args ctx) 1))) (\<lambda>_.
         emit (EvPrintSelected ''Private Key'' (Get (Args ctx) 2))))))))))))"
    proof (rule bind_shape[where P = "writeOrder E ctx",
          OF newCertificateFlow_writes _ writeOrder_prefix writeOrder_Inl], goal_cases)
      case (1 flow)
      show ?case
      proof (rule bind_shape[where P = "writeOrder E ctx",
            OF tokenw _ writeOrder_prefix writeOrder_Inl], goal_cases)
        case (1 ti)
        obtain token isStepToken where ti: "ti = (token, isStepToken)" by (cases ti)
        show ?case unfolding ti prod.case
        proof (rule bind_shape[where P = "writeOrder E ctx",
              OF _ _ writeOrder_prefix writeOrder_Inl], goal_cases)
          case 1
          show ?case by (simp add: CreateSignRequest_log)
        next
          case (2 rp)
          obtain req pk where rp: "rp = (req, pk)" by (cases rp)
          show ?case unfolding rp prod.case
          proof (rule bind_shape[where P = "writeOrder E ctx",
                OF _ _ writeOrder_prefix writeOrder_Inl], goal_cases)
            case 1
            show ?case by (simp add: checkSubject_log)
          next
            case (2 u)
            show ?case by (rule writeOrder_Sign)
          qed
        qed
      qed
    qed
    show ?thesis unfolding if_not_P[OF False] by (rule main)
  qed
qed

text \<open>
  Claim C8. Every run of the issue command has one of three shapes. It fails having
  written no file. Or a client was built, the validity parsed, the client's \<open>Sign\<close>
  returned a response and both its certificates were encoded, and the write of that
  chain to the certificate file is the one write of the run, when that write failed
  (the command then fails with its error, and the key is not written). Or that write
  succeeded and is followed by the write of the private key to the key file, and by no
  other write. So no certificate is written unless signing succeeded at every step,
  and the key is written only after the certificate file was.
\<close>

theorem certificate_written_before_key:
  "(\<exists>e. snd (certificateAction E ctx) = Inl e
        \<and> filter isWrite (fst (certificateAction E ctx)) = [])
   \<or> (\<exists>flow token csr l1 client notBefore notAfter l2 resp serverBlock caBlock.
         certificateFlow_getClient E flow ctx (CommonName csr) token = (l1, Inr client)
         \<and> parseValidity E ctx = Inr (notBefore, notAfter)
         \<and> caClient_Sign E client
               \<lparr>CsrPEM = csr, OTT = token, NotBefore = notBefore, NotAfter = notAfter\<rparr> = (l2, Inr resp)
         \<and> pemutil_Serialize E (ServerPEM resp) = Inr serverBlock
         \<and> pemutil_Serialize E (CaPEM resp) = Inr caBlock
         \<and> ((\<exists>msg. utils_WriteFile E (Get (Args ctx) 1)
                      (pem_EncodeToMemory E serverBlock @ pem_EncodeToMemory E caBlock) = Some msg
                \<and> snd (certificateAction E ctx) = Inl (External msg)
                \<and> filter isWrite (fst (certificateAction E ctx)) =
                    [EvWriteFile (Get (Args ctx) 1)
                       (pem_EncodeToMemory E serverBlock @ pem_EncodeToMemory E caBlock)])
            \<or> (utils_WriteFile E (Get (Args ctx) 1)
                      (pem_EncodeToMemory E serverBlock @ pem_EncodeToMemory E caBlock) = None
                \<and> (\<exists>pk. filter isWrite (fst (certificateAction E ctx)) =
                      [EvWriteFile (Get (Args ctx) 1)
                         (pem_EncodeToMemory E serverBlock @ pem_EncodeToMemory E caBlock),
                       EvSerializeToFile pk (Get (Args ctx) 2)]))))"
proof -
  have w: "writeOrder E ctx (fst (certificateAction E ctx)) (snd (certificateAction E ctx))"
    by (rule writeOrder_certificateAction)
  show ?thesis
  proof (cases "\<exists>e. snd (certificateAction E ctx) = Inl e
        \<and> filter isWrite (fst (certificateAction E ctx)) = []")
    case True
    then show ?thesis by (rule disjI1)
  next
    case False
    with w obtain data where chain: "signedChain E ctx data"
      and d: "(\<exists>msg. utils_WriteFile E (Get (Args ctx) 1) data = Some msg
                   \<and> snd (certificateAction E ctx) = Inl (External msg)
                   \<and> filter isWrite (fst (certificateAction E ctx)) = [EvWriteFile (Get (Args ctx) 1) data])
               \<or> (utils_WriteFile E (Get (Args ctx) 1) data = None
                   \<and> (\<exists>pk. filter isWrite (fst (certificateAction E ctx)) =
                         [EvWriteFile (Get (Args ctx) 1) data,
                          EvSerializeToFile pk (Get (Args ctx) 2)]))"
      unfolding writeOrder_def by blast
    from chain obtain flow token csr l1 client notBefore notAfter l2 resp serverBlock caBlock where
      "certificateFlow_getClient E flow ctx (CommonName csr) token = (l1, Inr client)"
      "parseValidity E ctx = Inr (notBefore, notAfter)"
      "caClient_Sign E client
               \<lparr>CsrPEM = csr, OTT = token, NotBefore = notBefore, NotAfter = notAfter\<rparr> = (l2, Inr resp)"
      "pemutil_Serialize E (ServerPEM resp) = Inr serverBlock"
      "pemutil_Serialize E (CaPEM resp) = Inr caBlock"
      "data = pem_EncodeToMemory E serverBlock @ pem_EncodeToMemory E caBlock"
      unfolding signedChain_def by blast
    with d show ?thesis by blast
  qed
qed

theorem certificate_written_before_key_witness:
  "filter isWrite (fst (certificateAction sampleEnv
       (sampleCtx\<lparr>Args := [''host.example.com'', ''crt'', ''key''], flag_token := ''native''\<rparr>)))
     = [EvWriteFile ''crt'' ''leafissuer'', EvSerializeToFile 7 ''key'']
   \<and> utils_WriteFile sampleEnv ''crt'' ''leafissuer'' = None
   \<and> certificateAction sampleEnv
       (sampleCtx\<lparr>Args := [''host.example.com'', ''crt'', ''key''], flag_token := ''plain'',
          flag_ca_url := ''https://ca''\<rparr>)
     = ([], Inl (RequiredFlag ''root''))"
proof -
  have ev: "filter isWrite (fst (certificateAction sampleEnv
       (sampleCtx\<lparr>Args := [''host.example.com'', ''crt'', ''key''], flag_token := ''native''\<rparr>)))
     = [EvWriteFile ''crt'' ''leafissuer'', EvSerializeToFile 7 ''key'']
   \<and> utils_WriteFile sampleEnv ''crt'' ''leafissuer'' = None
   \<and> certificateAction sampleEnv
       (sampleCtx\<lparr>Args := [''host.example.com'', ''crt'', ''key''], flag_token := ''plain'',
          flag_ca_url := ''https://ca''\<rparr>)
     = ([], Inl (RequiredFlag ''root''))"
    by code_simp
  from certificate_written_before_key
    [where E = sampleEnv
       and ctx = "sampleCtx\<lparr>Args := [''host.example.com'', ''crt'', ''key''], flag_token := ''native''\<rparr>"] ev
  show ?thesis by simp
qed

section \<open>The subject check of the issue command\<close>

lemma issueTail_errors:
  assumes "snd (bind (certificateFlow_Sign E flow ctx token csr crtFile) (\<lambda>_.
             bind (emit ev1) (\<lambda>_. bind (checkExt x) (\<lambda>_. bind (emit ev2) (\<lambda>_. emit ev3))))) = Inl e"
  shows "\<not> isCommonNameMismatch e \<and> \<not> isEmailCheckError e \<and> \<not> isFlagConflict e"
proof -
  from certificateFlow_Sign_cases[of E flow ctx token csr crtFile]
  consider
    (fail) l e' where "certificateFlow_Sign E flow ctx token csr crtFile = (l, Inl e')"
      "\<not> isCommonNameMismatch e' \<and> \<not> isEmailCheckError e' \<and> \<not> isFlagConflict e'"
  | (sign) l r where "certificateFlow_Sign E flow ctx token csr crtFile = (l, r)"
      "r = Inr () \<or> (\<exists>msg. r = Inl (External msg))"
    by (auto split: option.splits)
  then show ?thesis
  proof cases
    case fail
    with assms show ?thesis by (simp add: bind_Inl)
  next
    case sign
    with assms show ?thesis
      by (auto simp: snd_bind emit_def checkExt_def split: option.splits)
  qed
qed

text \<open>
  With three arguments, a token on the command line, the offline flag unset and no
  conflict of token and SANs, the command is the subject check on the request that
  \<open>CreateSignRequest\<close> built, then \<open>Sign\<close> and the write of the key.
\<close>

lemma certificateAction_supplied:
  assumes "length (Args ctx) = 3" and "flag_token ctx \<noteq> []" and "\<not> flag_offline ctx"
    and "\<not> (isStepCertificatesToken E (flag_token ctx) \<and> flag_san ctx \<noteq> [])"
    and "CreateSignRequest E (flag_token ctx) (flag_san ctx) = (l, Inr (req, pk))"
  shows "certificateAction E ctx =
     bind (checkSubject E (isStepCertificatesToken E (flag_token ctx)) (Get (Args ctx) 0) (CsrPEM req)) (\<lambda>_.
     bind (certificateFlow_Sign E \<lparr>offlineCA = None, offline = False\<rparr> ctx (flag_token ctx)
             (CsrPEM req) (Get (Args ctx) 1)) (\<lambda>_.
     bind (emit (EvSerializeToFile pk (Get (Args ctx) 2))) (\<lambda>_.
     bind (checkExt (pemutil_SerializeToFile E pk (Get (Args ctx) 2))) (\<lambda>_.
     bind (emit (EvPrintSelected ''Certificate'' (Get (Args ctx) 1))) (\<lambda>_.
     emit (EvPrintSelected ''Private Key'' (Get (Args ctx) 2)))))))"
proof -
  have l: "l = []" using CreateSignRequest_log[of E "flag_token ctx" "flag_san ctx"] assms(5) by simp
  have c: "CreateSignRequest E (flag_token ctx) (flag_san ctx) = ([], Inr (req, pk))"
    using assms(5) l by simp
  show ?thesis
    using assms(1-4)
    by (auto simp: certificateAction_def NumberOfArguments_def newCertificateFlow_def Let_def
        bind_check_None bind_ret bind_nil_Inr c)
qed

lemma CreateSignRequest_errors:
  "snd (CreateSignRequest E token sans) = Inl e \<Longrightarrow> \<not> isFlagConflict e"
  by (auto simp: CreateSignRequest_def snd_bind step_defs Let_def
      split: sum.splits prod.splits option.splits)

lemma certificateAction_supplied_failed:
  assumes "length (Args ctx) = 3" and "flag_token ctx \<noteq> []" and "\<not> flag_offline ctx"
    and "\<not> (isStepCertificatesToken E (flag_token ctx) \<and> flag_san ctx \<noteq> [])"
    and "CreateSignRequest E (flag_token ctx) (flag_san ctx) = (l, Inl e)"
  shows "certificateAction E ctx = (l, Inl e)"
  using assms(1-4)
  by (auto simp: certificateAction_def NumberOfArguments_def newCertificateFlow_def Let_def
      bind_check_None bind_ret bind_Inl assms(5))

text \<open>
  Claim C5. A token is classified as authority-native exactly when it parses and its
  unverified claims hold a non-empty \<open>sha\<close> or a non-empty \<open>sans\<close> list. For a token
  given on the command line (three arguments, offline unset) and the request that
  \<open>CreateSignRequest\<close> built from it: when the token is native, the command fails with
  the common-name mismatch exactly when the subject argument and the request's common
  name differ after lowering, and never with an error of the e-mail check; when it is
  not native, the command fails with an error of the e-mail check exactly when the
  request has no e-mail address or its first one is not the subject argument, and never
  with the common-name mismatch.
\<close>

theorem token_kind_selects_checked_field:
  assumes args: "length (Args ctx) = 3" and tok: "flag_token ctx \<noteq> []"
    and on: "\<not> flag_offline ctx"
    and csr: "CreateSignRequest E (flag_token ctx) (flag_san ctx) = (l, Inr (req, pk))"
  shows "isStepCertificatesToken E token =
           (\<exists>t claims. jose_ParseSigned E token = Inr t \<and> jose_tokenClaims E t = Inr claims
              \<and> (SHA claims \<noteq> [] \<or> SANs claims \<noteq> []))
     \<and> (isStepCertificatesToken E (flag_token ctx) \<and> flag_san ctx = [] \<longrightarrow>
          ((\<exists>e. snd (certificateAction E ctx) = Inl e \<and> isCommonNameMismatch e)
             = (ToLower (unicode_ToLower E) (Get (Args ctx) 0)
                  \<noteq> ToLower (unicode_ToLower E) (CommonName (CsrPEM req))))
          \<and> (\<forall>e. snd (certificateAction E ctx) = Inl e \<longrightarrow> \<not> isEmailCheckError e))
     \<and> (\<not> isStepCertificatesToken E (flag_token ctx) \<longrightarrow>
          ((\<exists>e. snd (certificateAction E ctx) = Inl e \<and> isEmailCheckError e)
             = (EmailAddresses (CsrPEM req) = []
                  \<or> EmailAddresses (CsrPEM req) ! 0 \<noteq> Get (Args ctx) 0))
          \<and> (\<forall>e. snd (certificateAction E ctx) = Inl e \<longrightarrow> \<not> isCommonNameMismatch e))"
proof -
  have kind: "isStepCertificatesToken E token =
           (\<exists>t claims. jose_ParseSigned E token = Inr t \<and> jose_tokenClaims E t = Inr claims
              \<and> (SHA claims \<noteq> [] \<or> SANs claims \<noteq> []))"
    by (auto simp: isStepCertificatesToken_def split: sum.splits)
  have native: "((\<exists>e. snd (certificateAction E ctx) = Inl e \<and> isCommonNameMismatch e)
             = (ToLower (unicode_ToLower E) (Get (Args ctx) 0)
                  \<noteq> ToLower (unicode_ToLower E) (CommonName (CsrPEM req))))
          \<and> (\<forall>e. snd (certificateAction E ctx) = Inl e \<longrightarrow> \<not> isEmailCheckError e)"
    if n: "isStepCertificatesToken E (flag_token ctx)" and s: "flag_san ctx = []"
  proof -
    have "\<not> (isStepCertificatesToken E (flag_token ctx) \<and> flag_san ctx \<noteq> [])" using s by simp
    note A = certificateAction_supplied[OF args tok on this csr]
    show ?thesis
    proof (cases "ToLower (unicode_ToLower E) (Get (Args ctx) 0)
                  \<noteq> ToLower (unicode_ToLower E) (CommonName (CsrPEM req))")
      case True
      then have "certificateAction E ctx =
          ([], Inl (CommonNameMismatch (CommonName (CsrPEM req)) (Get (Args ctx) 0)))"
        using n by (simp add: A checkSubject_def bind_fail)
      with True show ?thesis by simp
    next
      case False
      then have "\<not> isCommonNameMismatch e \<and> \<not> isEmailCheckError e \<and> \<not> isFlagConflict e"
        if "snd (certificateAction E ctx) = Inl e" for e
        using that n issueTail_errors[of E "\<lparr>offlineCA = None, offline = False\<rparr>" ctx "flag_token ctx"
            "CsrPEM req" "Get (Args ctx) 1" "EvSerializeToFile pk (Get (Args ctx) 2)"
            "pemutil_SerializeToFile E pk (Get (Args ctx) 2)"
            "EvPrintSelected ''Certificate'' (Get (Args ctx) 1)"
            "EvPrintSelected ''Private Key'' (Get (Args ctx) 2)" e]
        by (simp add: A checkSubject_def bind_ret)
      with False show ?thesis by blast
    qed
  qed
  have other: "((\<exists>e. snd (certificateAction E ctx) = Inl e \<and> isEmailCheckError e)
             = (EmailAddresses (CsrPEM req) = []
                  \<or> EmailAddresses (CsrPEM req) ! 0 \<noteq> Get (Args ctx) 0))
          \<and> (\<forall>e. snd (certificateAction E ctx) = Inl e \<longrightarrow> \<not> isCommonNameMismatch e)"
    if n: "\<not> isStepCertificatesToken E (flag_token ctx)"
  proof -
    have "\<not> (isStepCertificatesToken E (flag_token ctx) \<and> flag_san ctx \<noteq> [])" using n by simp
    note A = certificateAction_supplied[OF args tok on this csr]
    show ?thesis
    proof (cases "EmailAddresses (CsrPEM req) = []
                  \<or> EmailAddresses (CsrPEM req) ! 0 \<noteq> Get (Args ctx) 0")
      case True
      then have "certificateAction E ctx = ([], Inl NoEmailClaim)
          \<or> certificateAction E ctx =
              ([], Inl (EmailMismatch (EmailAddresses (CsrPEM req) ! 0) (Get (Args ctx) 0)))"
        using n by (auto simp: A checkSubject_def bind_fail)
      with True show ?thesis by auto
    next
      case False
      then have "\<not> isCommonNameMismatch e \<and> \<not> isEmailCheckError e \<and> \<not> isFlagConflict e"
        if "snd (certificateAction E ctx) = Inl e" for e
        using that n issueTail_errors[of E "\<lparr>offlineCA = None, offline = False\<rparr>" ctx "flag_token ctx"
            "CsrPEM req" "Get (Args ctx) 1" "EvSerializeToFile pk (Get (Args ctx) 2)"
            "pemutil_SerializeToFile E pk (Get (Args ctx) 2)"
            "EvPrintSelected ''Certificate'' (Get (Args ctx) 1)"
            "EvPrintSelected ''Private Key'' (Get (Args ctx) 2)" e]
        by (simp add: A checkSubject_def bind_ret)
      with False show ?thesis by blast
    qed
  qed
  from kind native other show ?thesis by blast
qed

theorem token_kind_selects_checked_field_witness:
  "length (Args (sampleCtx\<lparr>Args := [''HOST.example.com'', ''crt'', ''key''], flag_token := ''native''\<rparr>)) = 3
   \<and> flag_token (sampleCtx\<lparr>Args := [''HOST.example.com'', ''crt'', ''key''], flag_token := ''native''\<rparr>) \<noteq> []
   \<and> \<not> flag_offline (sampleCtx\<lparr>Args := [''HOST.example.com'', ''crt'', ''key''], flag_token := ''native''\<rparr>)
   \<and> CreateSignRequest sampleEnv ''native'' []
       = ([], Inr (\<lparr>CsrPEM = \<lparr>CommonName = ''host.example.com'', DNSNames = [],
                                IPAddresses = [], EmailAddresses = []\<rparr>,
                     OTT = ''native'', NotBefore = 0, NotAfter = 0\<rparr>, 7))
   \<and> isStepCertificatesToken sampleEnv ''native''
   \<and> snd (certificateAction sampleEnv
        (sampleCtx\<lparr>Args := [''HOST.example.com'', ''crt'', ''key''], flag_token := ''native''\<rparr>)) = Inr ()
   \<and> snd (certificateAction sampleEnv
        (sampleCtx\<lparr>Args := [''other.example.com'', ''crt'', ''key''], flag_token := ''native''\<rparr>))
       = Inl (CommonNameMismatch ''host.example.com'' ''other.example.com'')
   \<and> \<not> isStepCertificatesToken sampleEnv ''oidc''
   \<and> snd (certificateAction sampleEnv
        (sampleCtx\<lparr>Args := [''1234567890'', ''crt'', ''key''], flag_token := ''oidc''\<rparr>))
       = Inl (EmailMismatch ''joe@example.com'' ''1234567890'')"
proof -
  have ev: "length (Args (sampleCtx\<lparr>Args := [''HOST.example.com'', ''crt'', ''key''], flag_token := ''native''\<rparr>)) = 3
   \<and> flag_token (sampleCtx\<lparr>Args := [''HOST.example.com'', ''crt'', ''key''], flag_token := ''native''\<rparr>) \<noteq> []
   \<and> \<not> flag_offline (sampleCtx\<lparr>Args := [''HOST.example.com'', ''crt'', ''key''], flag_token := ''native''\<rparr>)
   \<and> CreateSignRequest sampleEnv ''native'' []
       = ([], Inr (\<lparr>CsrPEM = \<lparr>CommonName = ''host.example.com'', DNSNames = [],
                                IPAddresses = [], EmailAddresses = []\<rparr>,
                     OTT = ''native'', NotBefore = 0, NotAfter = 0\<rparr>, 7))
   \<and> isStepCertificatesToken sampleEnv ''native''
   \<and> snd (certificateAction sampleEnv
        (sampleCtx\<lparr>Args := [''HOST.example.com'', ''crt'', ''key''], flag_token := ''native''\<rparr>)) = Inr ()
   \<and> snd (certificateAction sampleEnv
        (sampleCtx\<lparr>Args := [''other.example.com'', ''crt'', ''key''], flag_token := ''native''\<rparr>))
       = Inl (CommonNameMismatch ''host.example.com'' ''other.example.com'')
   \<and> \<not> isStepCertificatesToken sampleEnv ''oidc''
   \<and> snd (certificateAction sampleEnv
        (sampleCtx\<lparr>Args := [''1234567890'', ''crt'', ''key''], flag_token := ''oidc''\<rparr>))
       = Inl (EmailMismatch ''joe@example.com'' ''1234567890'')"
    by code_simp
  have c: "CreateSignRequest sampleEnv
       (flag_token (sampleCtx\<lparr>Args := [''HOST.example.com'', ''crt'', ''key''], flag_token := ''native''\<rparr>))
       (flag_san (sampleCtx\<lparr>Args := [''HOST.example.com'', ''crt'', ''key''], flag_token := ''native''\<rparr>))
       = ([], Inr (\<lparr>CsrPEM = \<lparr>CommonName = ''host.example.com'', DNSNames = [],
                                IPAddresses = [], EmailAddresses = []\<rparr>,
                     OTT = ''native'', NotBefore = 0, NotAfter = 0\<rparr>, 7))"
    by code_simp
  have h: "length (Args (sampleCtx\<lparr>Args := [''HOST.example.com'', ''crt'', ''key''], flag_token := ''native''\<rparr>)) = 3"
    "flag_token (sampleCtx\<lparr>Args := [''HOST.example.com'', ''crt'', ''key''], flag_token := ''native''\<rparr>) \<noteq> []"
    "\<not> flag_offline (sampleCtx\<lparr>Args := [''HOST.example.com'', ''crt'', ''key''], flag_token := ''native''\<rparr>)"
    by (simp_all add: sampleCtx_def)
  from token_kind_selects_checked_field[OF h c, of "''native''"] ev
  show ?thesis by simp
qed

text \<open>
  Claim C10. For a token given on the command line that is not authority-native (three
  arguments, offline unset) and the request that \<open>CreateSignRequest\<close> built from it:
  when the request has no e-mail address the command fails, before any client is
  built, with the error that the payload has no e-mail claim; when it has one and the
  first differs from the subject argument as a byte string, even if the two are equal
  after lowering, it fails with the e-mail mismatch; when the first equals the subject
  argument the check passes. With a faithful certificate library the addresses of the
  request are the token's e-mail claim, if it has one.
\<close>

theorem email_checked_byte_for_byte:
  assumes args: "length (Args ctx) = 3" and tok: "flag_token ctx \<noteq> []"
    and on: "\<not> flag_offline ctx"
    and csr: "CreateSignRequest E (flag_token ctx) (flag_san ctx) = (l, Inr (req, pk))"
    and n: "\<not> isStepCertificatesToken E (flag_token ctx)"
  shows "(EmailAddresses (CsrPEM req) = [] \<longrightarrow>
            certificateAction E ctx = ([], Inl NoEmailClaim))
     \<and> (EmailAddresses (CsrPEM req) \<noteq> [] \<and> EmailAddresses (CsrPEM req) ! 0 \<noteq> Get (Args ctx) 0 \<longrightarrow>
            certificateAction E ctx =
              ([], Inl (EmailMismatch (EmailAddresses (CsrPEM req) ! 0) (Get (Args ctx) 0))))
     \<and> (EmailAddresses (CsrPEM req) \<noteq> [] \<and> EmailAddresses (CsrPEM req) ! 0 = Get (Args ctx) 0 \<longrightarrow>
            certificateAction E ctx =
              bind (certificateFlow_Sign E \<lparr>offlineCA = None, offline = False\<rparr> ctx (flag_token ctx)
                      (CsrPEM req) (Get (Args ctx) 1)) (\<lambda>_.
              bind (emit (EvSerializeToFile pk (Get (Args ctx) 2))) (\<lambda>_.
              bind (checkExt (pemutil_SerializeToFile E pk (Get (Args ctx) 2))) (\<lambda>_.
              bind (emit (EvPrintSelected ''Certificate'' (Get (Args ctx) 1))) (\<lambda>_.
              emit (EvPrintSelected ''Private Key'' (Get (Args ctx) 2))))))
            \<and> (\<forall>e. snd (certificateAction E ctx) = Inl e \<longrightarrow> \<not> isEmailCheckError e))
     \<and> (x509_faithful E \<longrightarrow>
          (\<forall>t claims. jose_ParseSigned E (flag_token ctx) = Inr t \<and> jose_tokenClaims E t = Inr claims
             \<longrightarrow> EmailAddresses (CsrPEM req) = (if Email claims \<noteq> [] then [Email claims] else [])))"
proof -
  have "\<not> (isStepCertificatesToken E (flag_token ctx) \<and> flag_san ctx \<noteq> [])" using n by simp
  note A = certificateAction_supplied[OF args tok on this csr]
  have a: "EmailAddresses (CsrPEM req) = [] \<longrightarrow>
            certificateAction E ctx = ([], Inl NoEmailClaim)"
    using n by (simp add: A checkSubject_def bind_fail)
  have b: "EmailAddresses (CsrPEM req) \<noteq> [] \<and> EmailAddresses (CsrPEM req) ! 0 \<noteq> Get (Args ctx) 0 \<longrightarrow>
            certificateAction E ctx =
              ([], Inl (EmailMismatch (EmailAddresses (CsrPEM req) ! 0) (Get (Args ctx) 0)))"
    using n by (simp add: A checkSubject_def bind_fail)
  have c1: "certificateAction E ctx =
              bind (certificateFlow_Sign E \<lparr>offlineCA = None, offline = False\<rparr> ctx (flag_token ctx)
                      (CsrPEM req) (Get (Args ctx) 1)) (\<lambda>_.
              bind (emit (EvSerializeToFile pk (Get (Args ctx) 2))) (\<lambda>_.
              bind (checkExt (pemutil_SerializeToFile E pk (Get (Args ctx) 2))) (\<lambda>_.
              bind (emit (EvPrintSelected ''Certificate'' (Get (Args ctx) 1))) (\<lambda>_.
              emit (EvPrintSelected ''Private Key'' (Get (Args ctx) 2))))))"
    if "EmailAddresses (CsrPEM req) \<noteq> []" "EmailAddresses (CsrPEM req) ! 0 = Get (Args ctx) 0"
    using that n by (simp add: A checkSubject_def bind_ret)
  have c2: "\<not> isEmailCheckError e"
    if "EmailAddresses (CsrPEM req) \<noteq> []" "EmailAddresses (CsrPEM req) ! 0 = Get (Args ctx) 0"
      and "snd (certificateAction E ctx) = Inl e" for e
    using issueTail_errors[of E "\<lparr>offlineCA = None, offline = False\<rparr>" ctx "flag_token ctx"
            "CsrPEM req" "Get (Args ctx) 1" "EvSerializeToFile pk (Get (Args ctx) 2)"
            "pemutil_SerializeToFile E pk (Get (Args ctx) 2)"
            "EvPrintSelected ''Certificate'' (Get (Args ctx) 1)"
            "EvPrintSelected ''Private Key'' (Get (Args ctx) 2)" e] that(3)
    by (simp add: c1[OF that(1,2)])
  have d: "EmailAddresses (CsrPEM req) = (if Email claims \<noteq> [] then [Email claims] else [])"
    if "x509_faithful E" "jose_ParseSigned E (flag_token ctx) = Inr t" "jose_tokenClaims E t = Inr claims"
    for t claims
    by (simp add: CreateSignRequest_faithful[OF that(2,3) csr that(1)])
  from a b c1 c2 d show ?thesis by blast
qed

theorem email_checked_byte_for_byte_witness:
  "length (Args (sampleCtx\<lparr>Args := [''Joe@example.com'', ''crt'', ''key''], flag_token := ''oidc''\<rparr>)) = 3
   \<and> flag_token (sampleCtx\<lparr>Args := [''Joe@example.com'', ''crt'', ''key''], flag_token := ''oidc''\<rparr>) \<noteq> []
   \<and> \<not> flag_offline (sampleCtx\<lparr>Args := [''Joe@example.com'', ''crt'', ''key''], flag_token := ''oidc''\<rparr>)
   \<and> \<not> isStepCertificatesToken sampleEnv ''oidc''
   \<and> CreateSignRequest sampleEnv ''oidc'' []
       = ([], Inr (\<lparr>CsrPEM = \<lparr>CommonName = ''1234567890'', DNSNames = [],
                                IPAddresses = [], EmailAddresses = [''joe@example.com'']\<rparr>,
                     OTT = ''oidc'', NotBefore = 0, NotAfter = 0\<rparr>, 7))
   \<and> ToLower (unicode_ToLower sampleEnv) ''Joe@example.com''
       = ToLower (unicode_ToLower sampleEnv) ''joe@example.com''
   \<and> certificateAction sampleEnv
        (sampleCtx\<lparr>Args := [''Joe@example.com'', ''crt'', ''key''], flag_token := ''oidc''\<rparr>)
       = ([], Inl (EmailMismatch ''joe@example.com'' ''Joe@example.com''))
"
proof -
  have ev: "length (Args (sampleCtx\<lparr>Args := [''Joe@example.com'', ''crt'', ''key''], flag_token := ''oidc''\<rparr>)) = 3
   \<and> flag_token (sampleCtx\<lparr>Args := [''Joe@example.com'', ''crt'', ''key''], flag_token := ''oidc''\<rparr>) \<noteq> []
   \<and> \<not> flag_offline (sampleCtx\<lparr>Args := [''Joe@example.com'', ''crt'', ''key''], flag_token := ''oidc''\<rparr>)
   \<and> \<not> isStepCertificatesToken sampleEnv ''oidc''
   \<and> CreateSignRequest sampleEnv ''oidc'' []
       = ([], Inr (\<lparr>CsrPEM = \<lparr>CommonName = ''1234567890'', DNSNames = [],
                                IPAddresses = [], EmailAddresses = [''joe@example.com'']\<rparr>,
                     OTT = ''oidc'', NotBefore = 0, NotAfter = 0\<rparr>, 7))
   \<and> ToLower (unicode_ToLower sampleEnv) ''Joe@example.com''
       = ToLower (unicode_ToLower sampleEnv) ''joe@example.com''
   \<and> certificateAction sampleEnv
        (sampleCtx\<lparr>Args := [''Joe@example.com'', ''crt'', ''key''], flag_token := ''oidc''\<rparr>)
       = ([], Inl (EmailMismatch ''joe@example.com'' ''Joe@example.com''))
"
    by code_simp
  have c: "CreateSignRequest sampleEnv
       (flag_token (sampleCtx\<lparr>Args := [''Joe@example.com'', ''crt'', ''key''], flag_token := ''oidc''\<rparr>))
       (flag_san (sampleCtx\<lparr>Args := [''Joe@example.com'', ''crt'', ''key''], flag_token := ''oidc''\<rparr>))
       = ([], Inr (\<lparr>CsrPEM = \<lparr>CommonName = ''1234567890'', DNSNames = [],
                                IPAddresses = [], EmailAddresses = [''joe@example.com'']\<rparr>,
                     OTT = ''oidc'', NotBefore = 0, NotAfter = 0\<rparr>, 7))"
    by code_simp
  have h: "length (Args (sampleCtx\<lparr>Args := [''Joe@example.com'', ''crt'', ''key''], flag_token := ''oidc''\<rparr>)) = 3"
    "flag_token (sampleCtx\<lparr>Args := [''Joe@example.com'', ''crt'', ''key''], flag_token := ''oidc''\<rparr>) \<noteq> []"
    "\<not> flag_offline (sampleCtx\<lparr>Args := [''Joe@example.com'', ''crt'', ''key''], flag_token := ''oidc''\<rparr>)"
    by (simp_all add: sampleCtx_def)
  have n: "\<not> isStepCertificatesToken sampleEnv
       (flag_token (sampleCtx\<lparr>Args := [''Joe@example.com'', ''crt'', ''key''], flag_token := ''oidc''\<rparr>))"
    by code_simp
  from email_checked_byte_for_byte[OF h c n] ev
  show ?thesis by simp
qed

section \<open>Token and SANs together\<close>

text \<open>
  For a token on the command line that is not authority-native (three arguments,
  offline unset), the command never fails with a FlagConflict, whatever the SAN list:
  the check of token against SANs is skipped, and no later step builds such an error.
\<close>

lemma foreign_token_with_san_not_rejected:
  assumes args: "length (Args ctx) = 3" and tok: "flag_token ctx \<noteq> []"
    and on: "\<not> flag_offline ctx" and n: "\<not> isStepCertificatesToken E (flag_token ctx)"
    and e: "snd (certificateAction E ctx) = Inl e"
  shows "\<not> isFlagConflict e"
proof -
  have g: "\<not> (isStepCertificatesToken E (flag_token ctx) \<and> flag_san ctx \<noteq> [])" using n by simp
  obtain l r where c: "CreateSignRequest E (flag_token ctx) (flag_san ctx) = (l, r)"
    by (cases "CreateSignRequest E (flag_token ctx) (flag_san ctx)")
  show ?thesis
  proof (cases r)
    case (Inl e')
    with certificateAction_supplied_failed[OF args tok on g c[unfolded Inl]] e
      CreateSignRequest_errors[of E "flag_token ctx" "flag_san ctx" e'] c
    show ?thesis by simp
  next
    case (Inr rp)
    obtain req pk where rp: "rp = (req, pk)" by (cases rp)
    note A = certificateAction_supplied[OF args tok on g c[unfolded Inr rp]]
    show ?thesis
    proof (cases "EmailAddresses (CsrPEM req) = []
                  \<or> EmailAddresses (CsrPEM req) ! 0 \<noteq> Get (Args ctx) 0")
      case True
      then have "certificateAction E ctx = ([], Inl NoEmailClaim)
          \<or> certificateAction E ctx =
              ([], Inl (EmailMismatch (EmailAddresses (CsrPEM req) ! 0) (Get (Args ctx) 0)))"
        using n by (auto simp: A checkSubject_def bind_fail)
      with e show ?thesis by auto
    next
      case False
      then show ?thesis
        using e n issueTail_errors[of E "\<lparr>offlineCA = None, offline = False\<rparr>" ctx "flag_token ctx"
            "CsrPEM req" "Get (Args ctx) 1" "EvSerializeToFile pk (Get (Args ctx) 2)"
            "pemutil_SerializeToFile E pk (Get (Args ctx) 2)"
            "EvPrintSelected ''Certificate'' (Get (Args ctx) 1)"
            "EvPrintSelected ''Private Key'' (Get (Args ctx) 2)" e]
        by (simp add: A checkSubject_def bind_ret)
    qed
  qed
qed

text \<open>
  Claim C9. The usage text of the \<open>--san\<close> flag says that \<open>--san\<close> and \<open>--token\<close>
  are mutually exclusive, and the claim says that the two together always fail with a
  FlagConflict. The command rejects the pair only when the token is authority-native:
  with the identity token of the sample environment, which has neither a \<open>sha\<close> nor a
  \<open>sans\<close> claim, and \<open>--san x\<close>, the run below builds the request with the DNS name
  \<open>x\<close>, has it signed, writes both files and succeeds.
\<close>

theorem token_with_san_accepted:
  "flag_token (sampleCtx\<lparr>Args := [''joe@example.com'', ''crt'', ''key''], flag_token := ''oidc'',
       flag_san := [''x''], flag_ca_url := ''https://ca'', flag_root := ''root.crt''\<rparr>) \<noteq> []
   \<and> flag_san (sampleCtx\<lparr>Args := [''joe@example.com'', ''crt'', ''key''], flag_token := ''oidc'',
       flag_san := [''x''], flag_ca_url := ''https://ca'', flag_root := ''root.crt''\<rparr>) \<noteq> []
   \<and> certificateAction sampleEnv
        (sampleCtx\<lparr>Args := [''joe@example.com'', ''crt'', ''key''], flag_token := ''oidc'',
           flag_san := [''x''], flag_ca_url := ''https://ca'', flag_root := ''root.crt''\<rparr>)
       = ([EvPrintSelected ''CA'' ''https://ca'',
           EvNewClient ''https://ca'' [WithRootFile ''root.crt''],
           EvClientSign ''https://ca''
             \<lparr>CsrPEM = \<lparr>CommonName = ''1234567890'', DNSNames = [''x''], IPAddresses = [],
                          EmailAddresses = [''joe@example.com'']\<rparr>,
              OTT = ''oidc'', NotBefore = 0, NotAfter = 0\<rparr>,
           EvWriteFile ''crt'' ''leafissuer'', EvSerializeToFile 7 ''key'',
           EvPrintSelected ''Certificate'' ''crt'',
           EvPrintSelected ''Private Key'' ''key''],
          Inr ())"
  by code_simp

end
